theory Spec2Isabelle
  imports
    Complex_Main
    "HOL-Library.Multiset"
    "HOL-Library.Char_ord"
    "HOL-Library.List_Lexorder"
    "HOL-Library.Product_Lexorder"
begin

section \<open>Data model\<close>

text \<open>
  A value of a data-frame cell. \<open>Null\<close> stands for pandas' missing value (NaN for text and
  numbers, NaT for dates); \<open>Dt y m d\<close> is a calendar date.
\<close>

datatype cell = Null | Str string | Num int | Dt int nat nat

text \<open>
  A data frame is column oriented, as in pandas: the association list of its column names
  and columns, in the order of the file's header.
\<close>

type_synonym frame = "(string \<times> cell list) list"

datatype exn =
    FileNotFoundError
  | ParserError
  | KeyError string
  | TypeError
  | AttributeError
  | IndexError
  | OSError

datatype step =
    LoadData | BasicAnalysis | ChemicalAnalysis | ProductAnalysis | AdvancedAnalysis
  | SaveResults

text \<open>The matrix that \<open>unstack\<close> builds: row labels, column labels and one row of cells per
  row label; \<open>None\<close> is a cell that holds NaN.\<close>

record matrix =
  index :: "cell list"
  columns :: "cell list"
  cells :: "nat option list list"

text \<open>A figure: its title, axis labels, tick rotation, and either one labelled line per
  series (x values, y values) or the bars.\<close>

datatype plot =
    LinePlot string string string "(cell \<times> cell list \<times> nat option list) list"
  | BarPlot string nat "(cell \<times> nat) list"

text \<open>What a written file holds.\<close>

datatype artifact =
    CsvFrame frame
  | CsvCounts "(cell \<times> nat) list"
  | CsvCompany "(cell \<times> nat \<times> nat) list"
  | Png plot

text \<open>What the program prints, one constructor per \<open>print\<close> of the source. The listing of
  column types printed by \<open>basic_analysis\<close> carries no data of the model and is the
  constructor \<open>DataTypes\<close> over the column names.\<close>

datatype printed =
    Banner step
  | StatusDir string
  | WarningDir exn
  | FallbackDir string
  | LookingFor string
  | Loaded nat
  | LoadFailed exn
  | TotalRecords nat
  | DataTypes "string list"
  | MissingValues "(string \<times> nat) list"
  | UniqueCount string nat
  | TopChemicals "(cell \<times> nat) list"
  | ChemByCategory "((cell \<times> cell) \<times> nat) list"
  | YearTotals "(cell \<times> nat) list"
  | CompanyStats "(cell \<times> nat \<times> nat) list"
  | CategoryDist "(cell \<times> nat) list"
  | SubcatDist "((cell \<times> cell) \<times> nat) list"
  | DiscontinuedCount nat
  | DiscontinuedChems "(cell \<times> nat) list"
  | AverageChems "rat option"
  | BrandChems "(cell \<times> nat) list"
  | CategoryDiversity "(cell \<times> nat) list"
  | SavedPlot string
  | ResultsSaved string
  | SaveFailed exn

text \<open>
  The analyzer object (\<open>data_path\<close>, \<open>df\<close>, \<open>results_dir\<close>, \<open>timestamp\<close>) together with
  the part of the outside world the program changes: the console, the directories it has
  created and the files it has written, in the order of writing.
\<close>

record state =
  data_path :: string
  df :: "frame option"
  results_dir :: string
  timestamp :: string
  console :: "printed list"
  dirs :: "string list"
  files :: "(string \<times> artifact) list"

text \<open>
  What the program reads from its surroundings and cannot decide itself: path resolution,
  the clock, which paths exist, what \<open>pd.read_csv\<close> returns for a path, how one value of a
  column converts to a date (\<open>None\<close> when it does not parse; the column is passed since
  pandas infers the format from it), and whether creating a directory or writing a file
  succeeds.
\<close>

record env =
  abspath :: "string \<Rightarrow> string"
  home :: string
  now :: string
  path_exists :: "string \<Rightarrow> bool"
  read_csv :: "string \<Rightarrow> exn + frame"
  parse_date :: "cell list \<Rightarrow> cell \<Rightarrow> (int \<times> nat \<times> nat) option"
  makedirs_fails :: "string \<Rightarrow> exn option"
  write_fails :: "string \<Rightarrow> artifact \<Rightarrow> exn option"

definition path_join :: "string \<Rightarrow> string \<Rightarrow> string" where
  "path_join a b = a @ ''/'' @ b"

definition emit :: "printed \<Rightarrow> state \<Rightarrow> state" where
  "emit x s = s\<lparr>console := console s @ [x]\<rparr>"

section \<open>The pandas operations the program calls\<close>

text \<open>Values in order of first appearance, each once.\<close>

fun uniq :: "'a list \<Rightarrow> 'a list" where
  "uniq [] = []"
| "uniq (x # xs) = x # uniq (filter (\<lambda>y. y \<noteq> x) xs)"

definition notna :: "cell \<Rightarrow> bool" where
  "notna c = (c \<noteq> Null)"

text \<open>\<open>Series.unique()\<close> keeps the missing value as a value of its own;
  \<open>Series.nunique()\<close> counts the distinct values that are not missing.\<close>

definition unique :: "cell list \<Rightarrow> cell list" where
  "unique col = uniq col"

definition nunique :: "cell list \<Rightarrow> nat" where
  "nunique col = length (uniq (filter notna col))"

text \<open>The order of group keys. Keys of one column have one type; the leading rank only
  makes the order total.\<close>

fun cell_key :: "cell \<Rightarrow> nat \<times> int \<times> nat \<times> nat \<times> string" where
  "cell_key Null = (0, 0, 0, 0, [])"
| "cell_key (Num n) = (1, n, 0, 0, [])"
| "cell_key (Str t) = (2, 0, 0, 0, t)"
| "cell_key (Dt y m d) = (3, y, m, d, [])"

text \<open>Sorting by a count, largest first; rows of equal count keep their order.\<close>

definition sort_desc :: "('a \<Rightarrow> nat) \<Rightarrow> 'a list \<Rightarrow> 'a list" where
  "sort_desc f xs = sort_key (\<lambda>x. - int (f x)) xs"

text \<open>\<open>Series.value_counts()\<close>: the count of every value that is not missing, largest
  count first.\<close>

definition value_counts :: "cell list \<Rightarrow> (cell \<times> nat) list" where
  "value_counts col =
     (let vals = filter notna col
      in sort_desc snd (map (\<lambda>v. (v, count_list vals v)) (uniq vals)))"

text \<open>\<open>groupby(key)\<close>: the group keys are the values of the key column that are not
  missing, in sorted order; a group holds the rows with that key.\<close>

definition group_keys :: "cell list \<Rightarrow> cell list" where
  "group_keys ks = sort_key cell_key (uniq (filter notna ks))"

definition group_of :: "cell list \<Rightarrow> cell list \<Rightarrow> cell \<Rightarrow> cell list" where
  "group_of ks vs k = map snd (filter (\<lambda>(k', v). k' = k) (zip ks vs))"

text \<open>\<open>groupby([a, b]).size()\<close>: the number of rows of every pair of keys that occurs with
  neither key missing, pairs in sorted order. Rows with a missing key are in no group.\<close>

definition valid_pairs :: "cell list \<Rightarrow> cell list \<Rightarrow> (cell \<times> cell) list" where
  "valid_pairs ks1 ks2 = filter (\<lambda>(a, b). notna a \<and> notna b) (zip ks1 ks2)"

definition groupby_size2 :: "cell list \<Rightarrow> cell list \<Rightarrow> ((cell \<times> cell) \<times> nat) list" where
  "groupby_size2 ks1 ks2 =
     (let pairs = valid_pairs ks1 ks2
      in map (\<lambda>k. (k, count_list pairs k))
           (sort_key (\<lambda>(a, b). (cell_key a, cell_key b)) (uniq pairs)))"

text \<open>\<open>unstack()\<close> with no fill value: the second key becomes the columns; a pair
  that does not occur has no entry, so its cell is NaN.\<close>

definition unstack :: "((cell \<times> cell) \<times> nat) list \<Rightarrow> matrix" where
  "unstack sizes =
     (let idx = sort_key cell_key (uniq (map (fst \<circ> fst) sizes));
          cols = sort_key cell_key (uniq (map (snd \<circ> fst) sizes))
      in \<lparr>index = idx, columns = cols,
          cells = map (\<lambda>y. map (\<lambda>c. map_of sizes (y, c)) cols) idx\<rparr>)"

text \<open>\<open>sum(axis=1)\<close>: the sum of every row, NaN cells skipped.\<close>

definition sum_axis1 :: "matrix \<Rightarrow> (cell \<times> nat) list" where
  "sum_axis1 m =
     map (\<lambda>(y, r). (y, sum_list (map (\<lambda>c. case c of None \<Rightarrow> 0 | Some n \<Rightarrow> n) r)))
       (zip (index m) (cells m))"

text \<open>One column of the matrix, \<open>chem_trends[chem]\<close>.\<close>

definition matrix_col :: "matrix \<Rightarrow> cell \<Rightarrow> nat option list" where
  "matrix_col m c =
     map (\<lambda>r. case map_of (zip (columns m) r) c of None \<Rightarrow> None | Some v \<Rightarrow> v) (cells m)"

text \<open>\<open>self.df[name]\<close>: a TypeError when no data frame is loaded, a KeyError when the
  column is absent.\<close>

definition get_col :: "frame option \<Rightarrow> string \<Rightarrow> exn + cell list" where
  "get_col d name =
     (case d of
        None \<Rightarrow> Inl TypeError
      | Some f \<Rightarrow> (case map_of f name of None \<Rightarrow> Inl (KeyError name) | Some c \<Rightarrow> Inr c))"

text \<open>\<open>df[name] = col\<close>: replaces the column, or appends it when it is new.\<close>

fun set_col :: "string \<Rightarrow> cell list \<Rightarrow> frame \<Rightarrow> frame" where
  "set_col k v [] = [(k, v)]"
| "set_col k v ((k', v') # f) = (if k = k' then (k, v) # f else (k', v') # set_col k v f)"

definition nrows :: "frame \<Rightarrow> nat" where
  "nrows f = (case f of [] \<Rightarrow> 0 | (k, c) # _ \<Rightarrow> length c)"

definition has_col :: "frame \<Rightarrow> string \<Rightarrow> bool" where
  "has_col f name = (name \<in> set (map fst f))"

text \<open>\<open>name in self.df.columns\<close>: an AttributeError when no data frame is loaded.\<close>

definition in_columns :: "frame option \<Rightarrow> string \<Rightarrow> exn + bool" where
  "in_columns d name = (case d of None \<Rightarrow> Inl AttributeError | Some f \<Rightarrow> Inr (has_col f name))"

text \<open>\<open>pd.to_datetime(col, errors='coerce')\<close>: a missing value stays missing, a value that
  does not parse becomes missing.\<close>

definition to_datetime :: "env \<Rightarrow> cell list \<Rightarrow> cell list" where
  "to_datetime env col =
     map (\<lambda>c. case c of
                 Null \<Rightarrow> Null
               | _ \<Rightarrow> (case parse_date env col c of
                         None \<Rightarrow> Null
                       | Some (y, m, d) \<Rightarrow> Dt y m d)) col"

fun is_datetime :: "cell \<Rightarrow> bool" where
  "is_datetime Null = True"
| "is_datetime (Dt y m d) = True"
| "is_datetime _ = False"

fun year_of :: "cell \<Rightarrow> cell" where
  "year_of (Dt y m d) = Num y"
| "year_of _ = Null"

text \<open>\<open>col.dt.year\<close>: the accessor exists on a column of dates only.\<close>

definition dt_year :: "cell list \<Rightarrow> exn + cell list" where
  "dt_year col = (if list_all is_datetime col then Inr (map year_of col) else Inl AttributeError)"

text \<open>\<open>self.df.groupby('CompanyName').agg({'ProductName': 'nunique', 'ChemicalName':
  'nunique'})\<close>, which \<open>product_analysis\<close> and \<open>save_results\<close> both compute.\<close>

definition company_agg :: "frame option \<Rightarrow> exn + (cell \<times> nat \<times> nat) list" where
  "company_agg d =
     (case get_col d ''CompanyName'' of Inl e \<Rightarrow> Inl e | Inr companies \<Rightarrow>
     (case get_col d ''ProductName'' of Inl e \<Rightarrow> Inl e | Inr products \<Rightarrow>
     (case get_col d ''ChemicalName'' of Inl e \<Rightarrow> Inl e | Inr chems \<Rightarrow>
        Inr (map (\<lambda>k. (k, nunique (group_of companies products k),
                          nunique (group_of companies chems k)))
               (group_keys companies)))))"

text \<open>\<open>groupby(key)[col].nunique()\<close>.\<close>

definition groupby_nunique :: "cell list \<Rightarrow> cell list \<Rightarrow> (cell \<times> nat) list" where
  "groupby_nunique ks vs = map (\<lambda>k. (k, nunique (group_of ks vs k))) (group_keys ks)"

text \<open>\<open>groupby(key)[col].unique()\<close>.\<close>

definition groupby_unique :: "cell list \<Rightarrow> cell list \<Rightarrow> (cell \<times> cell list) list" where
  "groupby_unique ks vs = map (\<lambda>k. (k, unique (group_of ks vs k))) (group_keys ks)"

text \<open>The mean of a list of counts; of no counts it is NaN, here \<open>None\<close>. The mean is
  kept exact: the rounding to one decimal place in the printed line is not modelled.\<close>

definition mean :: "nat list \<Rightarrow> rat option" where
  "mean ns = (if ns = [] then None else Some (of_nat (sum_list ns) / of_nat (length ns)))"

section \<open>The analyzer\<close>

text \<open>
  A method takes the state and returns the state it leaves behind, with either the
  exception it raised or its result. A state change made before an exception stays.
\<close>

definition makedirs :: "env \<Rightarrow> string \<Rightarrow> state \<Rightarrow> state \<times> (exn + unit)" where
  "makedirs env d s =
     (case makedirs_fails env d of
        Some e \<Rightarrow> (s, Inl e)
      | None \<Rightarrow> (s\<lparr>dirs := List.insert d (dirs s)\<rparr>, Inr ()))"

definition setup_directories :: "env \<Rightarrow> state \<Rightarrow> state \<times> (exn + unit)" where
  "setup_directories env s =
     (case makedirs env (results_dir s) s of
        (s1, Inr _) \<Rightarrow> (emit (StatusDir (results_dir s1)) s1, Inr ())
      | (s1, Inl e) \<Rightarrow>
          let s2 = emit (WarningDir e) s1;
              desktop = path_join (home env) ''Desktop'';
              s3 = s2\<lparr>results_dir := path_join desktop ''cosmetics_analysis''\<rparr>
          in (case makedirs env (results_dir s3) s3 of
                (s4, Inl e') \<Rightarrow> (s4, Inl e')
              | (s4, Inr _) \<Rightarrow> (emit (FallbackDir (results_dir s4)) s4, Inr ())))"

text \<open>The constructor \<open>__init__\<close>; its state argument gives the world it runs in.\<close>

definition init :: "env \<Rightarrow> string \<Rightarrow> state \<Rightarrow> state \<times> (exn + unit)" where
  "init env path w =
     setup_directories env
       (w\<lparr>data_path := path, df := None,
          results_dir := abspath env ''analysis_results'', timestamp := now env\<rparr>)"

definition date_cols :: "string list" where
  "date_cols = [''InitialDateReported'', ''MostRecentDateReported'', ''DiscontinuedDate'',
                ''ChemicalCreatedAt'', ''ChemicalUpdatedAt'']"

definition coerce_date :: "env \<Rightarrow> string \<Rightarrow> frame \<Rightarrow> frame" where
  "coerce_date env col f =
     (case map_of f col of None \<Rightarrow> f | Some c \<Rightarrow> set_col col (to_datetime env c) f)"

text \<open>The body of the \<open>try\<close> of \<open>load_data\<close>.\<close>

definition load_body :: "env \<Rightarrow> state \<Rightarrow> state \<times> (exn + unit)" where
  "load_body env s0 =
     (let abs_path = abspath env (data_path s0);
          s1 = emit (LookingFor abs_path) s0
      in if \<not> path_exists env abs_path then (s1, Inl FileNotFoundError)
         else case read_csv env abs_path of
           Inl e \<Rightarrow> (s1, Inl e)
         | Inr f \<Rightarrow>
             let f2 = fold (coerce_date env) date_cols f;
                 s2 = s1\<lparr>df := Some f2\<rparr>
             in if has_col f2 ''InitialDateReported'' then
                  case get_col (Some f2) ''InitialDateReported'' of
                    Inl e \<Rightarrow> (s2, Inl e)
                  | Inr c \<Rightarrow>
                     (case dt_year c of
                        Inl e \<Rightarrow> (s2, Inl e)
                      | Inr ys \<Rightarrow>
                          let f3 = set_col ''ReportYear'' ys f2
                          in (emit (Loaded (nrows f3)) (s2\<lparr>df := Some f3\<rparr>), Inr ()))
                else (emit (Loaded (nrows f2)) s2, Inr ()))"

definition load_data :: "env \<Rightarrow> state \<Rightarrow> state \<times> (exn + bool)" where
  "load_data env s =
     (case load_body env (emit (Banner LoadData) s) of
        (s1, Inr _) \<Rightarrow> (s1, Inr True)
      | (s1, Inl e) \<Rightarrow> (emit (LoadFailed e) s1, Inr False))"

definition cat_cols :: "string list" where
  "cat_cols = [''CompanyName'', ''BrandName'', ''PrimaryCategory'', ''SubCategory'',
               ''ChemicalName'']"

definition basic_analysis :: "state \<Rightarrow> state \<times> (exn + unit)" where
  "basic_analysis s0 =
     (let s1 = emit (Banner BasicAnalysis) s0
      in case df s1 of
           None \<Rightarrow> (s1, Inl TypeError)
         | Some f \<Rightarrow>
             let s2 = emit (TotalRecords (nrows f)) s1;
                 s3 = emit (DataTypes (map fst f)) s2;
                 s4 = emit (MissingValues
                        (map (\<lambda>(k, c). (k, length (filter (\<lambda>x. \<not> notna x) c))) f)) s3
             in (fold (\<lambda>col s. case map_of f col of
                                 None \<Rightarrow> s
                               | Some c \<Rightarrow> emit (UniqueCount col (nunique c)) s)
                   cat_cols s4, Inr ()))"

text \<open>The path of an output file: \<open>os.path.join(self.results_dir,
  f"{self.timestamp}_{name}")\<close>.\<close>

definition out_path :: "state \<Rightarrow> string \<Rightarrow> string" where
  "out_path s name = path_join (results_dir s) (timestamp s @ ''_'' @ name)"

text \<open>\<open>_save_plot\<close>, given the figure drawn so far. Saving is matplotlib's; whether it
  succeeds is the environment's \<open>write_fails\<close>.\<close>

definition save_plot :: "env \<Rightarrow> string \<Rightarrow> plot \<Rightarrow> state \<Rightarrow> state \<times> (exn + unit)" where
  "save_plot env filename p s =
     (let path = out_path s filename
      in case write_fails env path (Png p) of
           Some e \<Rightarrow> (s, Inl e)
         | None \<Rightarrow> (emit (SavedPlot filename) (s\<lparr>files := files s @ [(path, Png p)]\<rparr>), Inr ()))"

text \<open>The local variables of \<open>chemical_analysis\<close>, returned for the theorems about them.\<close>

record chem_locals =
  chem_counts :: "(cell \<times> nat) list"
  chem_by_category :: "((cell \<times> cell) \<times> nat) list"
  chem_trends :: "matrix option"

definition chemical_analysis :: "env \<Rightarrow> state \<Rightarrow> state \<times> (exn + chem_locals)" where
  "chemical_analysis env s0 =
     (let s1 = emit (Banner ChemicalAnalysis) s0
      in case get_col (df s1) ''ChemicalName'' of Inl e \<Rightarrow> (s1, Inl e) | Inr chem \<Rightarrow>
        (let counts = value_counts chem;
             s2 = emit (TopChemicals (take 20 counts)) s1
         in case get_col (df s2) ''PrimaryCategory'' of Inl e \<Rightarrow> (s2, Inl e) | Inr cat \<Rightarrow>
           (let by_category = groupby_size2 cat chem;
                s3 = emit (ChemByCategory (take 20 by_category)) s2
            in case in_columns (df s3) ''ReportYear'' of Inl e \<Rightarrow> (s3, Inl e) | Inr present \<Rightarrow>
               if \<not> present then
                 (s3, Inr \<lparr>chem_counts = counts, chem_by_category = by_category,
                           chem_trends = None\<rparr>)
               else (case get_col (df s3) ''ReportYear'' of
                 Inl e \<Rightarrow> (s3, Inl e)
               | Inr year \<Rightarrow>
                  (let trends = unstack (groupby_size2 year chem);
                       s4 = emit (YearTotals (sum_axis1 trends)) s3;
                       top_chems = map fst (take 5 counts);
                       lines = map (\<lambda>c. (c, index trends, matrix_col trends c))
                                 (filter (\<lambda>c. c \<in> set (columns trends)) top_chems)
                   in case save_plot env ''chemical_trends.png''
                             (LinePlot ''Top 5 Chemicals Over Time'' ''Year''
                                ''Number of Products'' lines) s4 of
                        (s5, Inl e) \<Rightarrow> (s5, Inl e)
                      | (s5, Inr _) \<Rightarrow>
                          (s5, Inr \<lparr>chem_counts = counts, chem_by_category = by_category,
                                    chem_trends = Some trends\<rparr>))))))"

text \<open>The local variables of \<open>product_analysis\<close>; \<open>discontinued\<close> is the number of rows of
  the subset, \<open>None\<close> when the column is absent.\<close>

record product_locals =
  company_stats :: "(cell \<times> nat \<times> nat) list"
  category_dist :: "(cell \<times> nat) list"
  subcat_dist :: "((cell \<times> cell) \<times> nat) list"
  discontinued :: "nat option"
  disc_chem :: "(cell \<times> nat) list option"

text \<open>\<open>col[mask]\<close>: the rows of a column that a Boolean mask selects.\<close>

definition select_rows :: "bool list \<Rightarrow> cell list \<Rightarrow> cell list" where
  "select_rows sel col = map snd (filter fst (zip sel col))"

text \<open>\<open>rows.plot(kind='bar')\<close> with the title and the tick rotation set after it: the bar
  chart of a frequency table. Of a table with no row pandas cannot place the bars and
  raises an IndexError.\<close>

definition plot_bar :: "string \<Rightarrow> nat \<Rightarrow> (cell \<times> nat) list \<Rightarrow> exn + plot" where
  "plot_bar title rotation rows =
     (if rows = [] then Inl IndexError else Inr (BarPlot title rotation rows))"

definition product_analysis :: "env \<Rightarrow> state \<Rightarrow> state \<times> (exn + product_locals)" where
  "product_analysis env s0 =
     (let s1 = emit (Banner ProductAnalysis) s0
      in case company_agg (df s1) of Inl e \<Rightarrow> (s1, Inl e) | Inr agg \<Rightarrow>
        (let stats = sort_desc (\<lambda>(k, p, c). p) agg;
             s2 = emit (CompanyStats (take 10 stats)) s1
         in case get_col (df s2) ''PrimaryCategory'' of Inl e \<Rightarrow> (s2, Inl e) | Inr cat \<Rightarrow>
           (let dist = value_counts cat;
                s3 = emit (CategoryDist dist) s2
            in case get_col (df s3) ''SubCategory'' of Inl e \<Rightarrow> (s3, Inl e) | Inr sub \<Rightarrow>
              (let subdist = groupby_size2 cat sub;
                   s4 = emit (SubcatDist (take 20 subdist)) s3;
                   locals = \<lparr>company_stats = stats, category_dist = dist,
                             subcat_dist = subdist, discontinued = None, disc_chem = None\<rparr>
               in case in_columns (df s4) ''DiscontinuedDate'' of
                    Inl e \<Rightarrow> (s4, Inl e)
                  | Inr present \<Rightarrow>
                  if \<not> present then (s4, Inr locals)
                  else (case get_col (df s4) ''DiscontinuedDate'' of
                    Inl e \<Rightarrow> (s4, Inl e)
                  | Inr disc \<Rightarrow>
                  (let sel = map notna disc;
                       n = length (filter id sel);
                       s5 = emit (DiscontinuedCount n) s4
                   in if \<not> 0 < n then (s5, Inr (locals\<lparr>discontinued := Some n\<rparr>))
                      else (case get_col (df s5) ''ChemicalName'' of
                        Inl e \<Rightarrow> (s5, Inl e)
                      | Inr chem \<Rightarrow>
                      (let dchem = value_counts (select_rows sel chem);
                           s6 = emit (DiscontinuedChems (take 10 dchem)) s5
                       in case plot_bar ''Top Chemicals in Discontinued Products'' 45
                                 (take 10 dchem) of
                            Inl e \<Rightarrow> (s6, Inl e)
                          | Inr fig \<Rightarrow>
                          (case save_plot env ''discontinued_chemicals.png'' fig s6 of
                            (s7, Inl e) \<Rightarrow> (s7, Inl e)
                          | (s7, Inr _) \<Rightarrow>
                              (s7, Inr (locals\<lparr>discontinued := Some n,
                                                disc_chem := Some dchem\<rparr>)))))))))))"

text \<open>The local variables of \<open>advanced_analysis\<close>.\<close>

record advanced_locals =
  product_chems :: "(cell \<times> cell list) list"
  brand_chems :: "(cell \<times> nat) list"
  category_diversity :: "(cell \<times> nat) list"

definition advanced_analysis :: "state \<Rightarrow> state \<times> (exn + advanced_locals)" where
  "advanced_analysis s0 =
     (let s1 = emit (Banner AdvancedAnalysis) s0
      in case get_col (df s1) ''ProductName'' of Inl e \<Rightarrow> (s1, Inl e) | Inr products \<Rightarrow>
        (case get_col (df s1) ''ChemicalName'' of Inl e \<Rightarrow> (s1, Inl e) | Inr chem \<Rightarrow>
        (let pchems = groupby_unique products chem;
             s2 = emit (AverageChems (mean (map (\<lambda>(k, u). length u) pchems))) s1
         in case get_col (df s2) ''BrandName'' of Inl e \<Rightarrow> (s2, Inl e) | Inr brand \<Rightarrow>
           (let bchems = sort_desc snd (groupby_nunique brand chem);
                s3 = emit (BrandChems (take 10 bchems)) s2
            in case get_col (df s3) ''PrimaryCategory'' of
                 Inl e \<Rightarrow> (s3, Inl e)
               | Inr cat \<Rightarrow>
                 (let diversity = groupby_nunique cat chem;
                      s4 = emit (CategoryDiversity (sort_desc snd diversity)) s3
                  in (s4, Inr \<lparr>product_chems = pchems, brand_chems = bchems,
                                category_diversity = diversity\<rparr>))))))"

text \<open>\<open>to_csv\<close>: writes the table to the path, or raises what the environment gives.\<close>

definition to_csv :: "env \<Rightarrow> string \<Rightarrow> artifact \<Rightarrow> state \<Rightarrow> state \<times> (exn + unit)" where
  "to_csv env path a s =
     (case write_fails env path a of
        Some e \<Rightarrow> (s, Inl e)
      | None \<Rightarrow> (s\<lparr>files := files s @ [(path, a)]\<rparr>, Inr ()))"

text \<open>The body of the \<open>try\<close> of \<open>save_results\<close>.\<close>

definition save_body :: "env \<Rightarrow> state \<Rightarrow> state \<times> (exn + unit)" where
  "save_body env s0 =
     (case df s0 of None \<Rightarrow> (s0, Inl AttributeError) | Some f \<Rightarrow>
     (case to_csv env (out_path s0 ''cleaned_data.csv'') (CsvFrame f) s0 of
        (s1, Inl e) \<Rightarrow> (s1, Inl e)
      | (s1, Inr _) \<Rightarrow>
     (case get_col (df s1) ''ChemicalName'' of Inl e \<Rightarrow> (s1, Inl e) | Inr chem \<Rightarrow>
     (case to_csv env (out_path s1 ''chemical_counts.csv'') (CsvCounts (value_counts chem)) s1 of
        (s2, Inl e) \<Rightarrow> (s2, Inl e)
      | (s2, Inr _) \<Rightarrow>
     (case company_agg (df s2) of Inl e \<Rightarrow> (s2, Inl e) | Inr agg \<Rightarrow>
     (case to_csv env (out_path s2 ''company_stats.csv'') (CsvCompany agg) s2 of
        (s3, Inl e) \<Rightarrow> (s3, Inl e)
      | (s3, Inr _) \<Rightarrow> (emit (ResultsSaved (results_dir s3)) s3, Inr ())))))))"

definition save_results :: "env \<Rightarrow> state \<Rightarrow> state \<times> (exn + unit)" where
  "save_results env s =
     (case save_body env (emit (Banner SaveResults) s) of
        (s1, Inr _) \<Rightarrow> (s1, Inr ())
      | (s1, Inl e) \<Rightarrow> (emit (SaveFailed e) s1, Inr ()))"

definition run_full_analysis :: "env \<Rightarrow> state \<Rightarrow> state \<times> (exn + unit)" where
  "run_full_analysis env s =
     (case load_data env s of (s1, Inl e) \<Rightarrow> (s1, Inl e) | (s1, Inr loaded) \<Rightarrow>
        if \<not> loaded then (s1, Inr ())
        else
     (case basic_analysis s1 of (s2, Inl e) \<Rightarrow> (s2, Inl e) | (s2, Inr _) \<Rightarrow>
     (case chemical_analysis env s2 of (s3, Inl e) \<Rightarrow> (s3, Inl e) | (s3, Inr _) \<Rightarrow>
     (case product_analysis env s3 of (s4, Inl e) \<Rightarrow> (s4, Inl e) | (s4, Inr _) \<Rightarrow>
     (case advanced_analysis s4 of (s5, Inl e) \<Rightarrow> (s5, Inl e) | (s5, Inr _) \<Rightarrow>
        save_results env s5)))))"

text \<open>The steps that have run, read off the console: every step prints its banner first.\<close>

definition invoked :: "printed list \<Rightarrow> step list" where
  "invoked out = concat (map (\<lambda>x. case x of Banner st \<Rightarrow> [st] | _ \<Rightarrow> []) out)"

text \<open>The two directories the constructor tries, in this order.\<close>

definition primary_dir :: "env \<Rightarrow> string" where
  "primary_dir env = abspath env ''analysis_results''"

definition fallback_dir :: "env \<Rightarrow> string" where
  "fallback_dir env = path_join (path_join (home env) ''Desktop'') ''cosmetics_analysis''"

text \<open>The average of claim C7 in the words of the specification: group by \<open>ProductName\<close>,
  count the distinct \<open>ChemicalName\<close> values that are not missing, average the counts.
  The program's own computation is in \<open>advanced_analysis\<close>.\<close>

definition spec_average_chems :: "cell list \<Rightarrow> cell list \<Rightarrow> rat option" where
  "spec_average_chems products chem = mean (map snd (groupby_nunique products chem))"

section \<open>Example inputs\<close>

text \<open>An environment in which every path exists, every directory can be created and every
  file can be written; dates are read in the form of the data set, month/day/year.\<close>

definition env_ok :: env where
  "env_ok =
     \<lparr>abspath = (\<lambda>p. ''/work/'' @ p), home = ''/home/user'', now = ''20240101_120000'',
      path_exists = (\<lambda>p. True),
      read_csv = (\<lambda>p. Inr [(''ChemicalName'', [Str ''Talc'', Str ''Mica'', Str ''Talc'']),
                              (''InitialDateReported'',
                                 [Str ''06/17/2009'', Str ''unknown'', Null])]),
      parse_date = (\<lambda>col c. if c = Str ''06/17/2009'' then Some (2009, 6, 17) else None),
      makedirs_fails = (\<lambda>p. None),
      write_fails = (\<lambda>p a. None)\<rparr>"

text \<open>The same environment with no file at any path.\<close>

definition env_missing :: env where
  "env_missing = env_ok\<lparr>path_exists := (\<lambda>p. False)\<rparr>"

text \<open>An analyzer as the constructor leaves it, before \<open>load_data\<close>.\<close>

definition st_new :: state where
  "st_new =
     \<lparr>data_path = ''data.csv'', df = None, results_dir = ''/work/analysis_results'',
      timestamp = ''20240101_120000'',
      console = [StatusDir ''/work/analysis_results''],
      dirs = [''/work/analysis_results''], files = []\<rparr>"

text \<open>An environment in which no directory can be created, and one in which the table of
  chemical counts cannot be written.\<close>

definition env_nodirs :: env where
  "env_nodirs = env_ok\<lparr>makedirs_fails := (\<lambda>p. Some OSError)\<rparr>"

definition env_disk_full :: env where
  "env_disk_full =
     env_ok\<lparr>write_fails := (\<lambda>p a. case a of CsvCounts t \<Rightarrow> Some OSError | _ \<Rightarrow> None)\<rparr>"

text \<open>The world before the program starts.\<close>

definition world0 :: state where
  "world0 = \<lparr>data_path = [], df = None, results_dir = [], timestamp = [], console = [],
             dirs = [], files = []\<rparr>"

text \<open>A loaded analyzer over three records of two companies.\<close>

definition st_companies :: state where
  "st_companies =
     \<lparr>data_path = ''data.csv'',
      df = Some [(''CompanyName'', [Str ''Acme'', Str ''Bolt'', Str ''Bolt'']),
                 (''ProductName'', [Str ''Gloss'', Str ''Dye'', Str ''Tint'']),
                 (''ChemicalName'', [Str ''Talc'', Str ''Talc'', Str ''Mica'']),
                 (''PrimaryCategory'', [Str ''Lips'', Str ''Hair'', Str ''Hair'']),
                 (''SubCategory'', [Str ''Gloss'', Str ''Color'', Str ''Color''])],
      results_dir = ''out'', timestamp = ''t'', console = [], dirs = [], files = []\<rparr>"



text \<open>A loaded analyzer over two records of one product; the second record has no chemical
  name.\<close>

definition st_missing_chem :: state where
  "st_missing_chem =
     \<lparr>data_path = ''data.csv'',
      df = Some [(''ProductName'', [Str ''Gloss'', Str ''Gloss'']),
                 (''ChemicalName'', [Str ''Talc'', Null]),
                 (''BrandName'', [Str ''Shine'', Str ''Shine'']),
                 (''PrimaryCategory'', [Str ''Lips'', Str ''Lips''])],
      results_dir = ''out'', timestamp = ''t'', console = [], dirs = [], files = []\<rparr>"

text \<open>A loaded analyzer with every column the analyses read, and the states it passes
  through in \<open>run_full_analysis\<close>.\<close>

definition st_full :: state where
  "st_full =
     \<lparr>data_path = ''data.csv'',
      df = Some [(''CompanyName'', [Str ''Acme'', Str ''Bolt'', Str ''Bolt'']),
                 (''BrandName'', [Str ''Shine'', Str ''Deep'', Str ''Deep'']),
                 (''ProductName'', [Str ''Gloss'', Str ''Dye'', Str ''Tint'']),
                 (''ChemicalName'', [Str ''Talc'', Str ''Talc'', Str ''Mica'']),
                 (''PrimaryCategory'', [Str ''Lips'', Str ''Hair'', Str ''Hair'']),
                 (''SubCategory'', [Str ''Gloss'', Str ''Color'', Str ''Color''])],
      results_dir = ''out'', timestamp = ''t'', console = [], dirs = [], files = []\<rparr>"

definition st_full1 :: state where
  "st_full1 = fst (basic_analysis st_full)"

definition st_full2 :: state where
  "st_full2 = fst (chemical_analysis env_ok st_full1)"

definition st_full3 :: state where
  "st_full3 = fst (product_analysis env_ok st_full2)"

definition st_full4 :: state where
  "st_full4 = fst (advanced_analysis st_full3)"

text \<open>A loaded analyzer in which the one discontinued record has no chemical name.\<close>

definition st_no_disc_chem :: state where
  "st_no_disc_chem =
     \<lparr>data_path = ''data.csv'',
      df = Some [(''CompanyName'', [Str ''Acme'', Str ''Bolt'']),
                 (''ProductName'', [Str ''Gloss'', Str ''Dye'']),
                 (''ChemicalName'', [Str ''Talc'', Null]),
                 (''PrimaryCategory'', [Str ''Lips'', Str ''Hair'']),
                 (''SubCategory'', [Str ''Gloss'', Str ''Color'']),
                 (''DiscontinuedDate'', [Null, Dt 2012 3 1])],
      results_dir = ''out'', timestamp = ''t'', console = [], dirs = [], files = []\<rparr>"

text \<open>A loaded analyzer over three records of two years.\<close>

definition st_trends :: state where
  "st_trends =
     \<lparr>data_path = ''data.csv'',
      df = Some [(''PrimaryCategory'', [Str ''Hair'', Str ''Hair'', Str ''Nail'']),
                 (''ChemicalName'', [Str ''Talc'', Str ''Mica'', Str ''Mica'']),
                 (''ReportYear'', [Num 2009, Num 2010, Num 2010])],
      results_dir = ''out'', timestamp = ''t'', console = [], dirs = [], files = []\<rparr>"

text \<open>A loaded analyzer over four records; one record has no chemical name.\<close>

definition st_small :: state where
  "st_small =
     \<lparr>data_path = ''data.csv'',
      df = Some [(''PrimaryCategory'', [Str ''Hair'', Str ''Hair'', Str ''Nail'', Str ''Nail'']),
                 (''ChemicalName'', [Str ''Talc'', Null, Str ''Mica'', Str ''Talc''])],
      results_dir = ''out'', timestamp = ''t'', console = [], dirs = [], files = []\<rparr>"

section \<open>Lemmas on the pandas operations\<close>

lemma set_uniq [simp]: "set (uniq xs) = set xs"
  by (induction xs rule: uniq.induct) auto

lemma distinct_uniq [simp]: "distinct (uniq xs)"
  by (induction xs rule: uniq.induct) auto

lemma sum_count_uniq: "sum_list (map (count_list xs) (uniq xs)) = length xs"
proof -
  have "sum_list (map (count_list xs) (uniq xs)) = sum (count_list xs) (set xs)"
    by (simp add: sum_list_distinct_conv_sum_set)
  also have "\<dots> = length xs"
    by (rule sum_count_set) simp_all
  finally show ?thesis .
qed

lemma sum_list_sort_desc:
  fixes g :: "'a \<Rightarrow> nat"
  shows "sum_list (map g (sort_desc f xs)) = sum_list (map g xs)"
proof -
  have "mset (map g (sort_desc f xs)) = mset (map g xs)"
    by (simp add: sort_desc_def)
  then have "sum_mset (mset (map g (sort_desc f xs))) = sum_mset (mset (map g xs))"
    by (rule arg_cong)
  then show ?thesis
    by (simp only: sum_mset_sum_list)
qed

lemma value_counts_sum: "sum_list (map snd (value_counts col)) = length (filter notna col)"
  by (simp add: value_counts_def Let_def sum_list_sort_desc comp_def sum_count_uniq)

lemma df_emit [simp]: "df (emit x s) = df s"
  and files_emit [simp]: "files (emit x s) = files s"
  and results_dir_emit [simp]: "results_dir (emit x s) = results_dir s"
  and timestamp_emit [simp]: "timestamp (emit x s) = timestamp s"
  and console_emit [simp]: "console (emit x s) = console s @ [x]"
  and data_path_emit [simp]: "data_path (emit x s) = data_path s"
  and dirs_emit [simp]: "dirs (emit x s) = dirs s"
  by (simp_all add: emit_def)

lemma map_of_set_col: "map_of (set_col k v f) = (map_of f)(k \<mapsto> v)"
  by (induction f) (auto simp: fun_eq_iff)

lemma map_of_coerce_date:
  "map_of (coerce_date env c f) k
     = (if k = c then map_option (to_datetime env) (map_of f c) else map_of f k)"
  by (auto simp: coerce_date_def map_of_set_col split: option.splits)

lemma map_of_fold_coerce:
  "distinct cs \<Longrightarrow> map_of (fold (coerce_date env) cs f) k
     = (if k \<in> set cs then map_option (to_datetime env) (map_of f k) else map_of f k)"
  by (induction cs arbitrary: f) (auto simp: map_of_coerce_date)

lemma has_col_map_of: "has_col f k \<longleftrightarrow> map_of f k \<noteq> None"
  by (simp add: has_col_def map_of_eq_None_iff)

lemma is_datetime_to_datetime: "list_all is_datetime (to_datetime env col)"
  by (auto simp: to_datetime_def list_all_iff split: cell.splits option.splits)

lemma dt_year_to_datetime:
  "dt_year (to_datetime env col) = Inr (map year_of (to_datetime env col))"
  by (simp add: dt_year_def is_datetime_to_datetime)

lemma load_data_success:
  assumes "path_exists env (abspath env (data_path s))"
    and "read_csv env (abspath env (data_path s)) = Inr f"
    and "map_of f ''InitialDateReported'' = Some col"
  shows "snd (load_data env s) = Inr True"
    and "df (fst (load_data env s))
           = Some (set_col ''ReportYear'' (map year_of (to_datetime env col))
                    (fold (coerce_date env) date_cols f))"
proof -
  have d: "distinct date_cols" by (simp add: date_cols_def)
  have m: "map_of (fold (coerce_date env) date_cols f) ''InitialDateReported''
             = Some (to_datetime env col)"
    using assms(3) by (simp add: map_of_fold_coerce [OF d]) (simp add: date_cols_def)
  then have h: "has_col (fold (coerce_date env) date_cols f) ''InitialDateReported''"
    by (simp add: has_col_map_of)
  show "snd (load_data env s) = Inr True"
    using assms(1,2) m h
    by (simp add: load_data_def load_body_def Let_def get_col_def dt_year_to_datetime)
  show "df (fst (load_data env s))
           = Some (set_col ''ReportYear'' (map year_of (to_datetime env col))
                    (fold (coerce_date env) date_cols f))"
    using assms(1,2) m h
    by (simp add: load_data_def load_body_def Let_def get_col_def dt_year_to_datetime)
qed

lemma load_missing:
  assumes "\<not> path_exists env (abspath env (data_path s))"
  shows "load_data env s
           = (s\<lparr>console := console s @ [Banner LoadData,
                   LookingFor (abspath env (data_path s)), LoadFailed FileNotFoundError]\<rparr>,
              Inr False)"
  using assms by (simp add: load_data_def load_body_def Let_def emit_def)

lemma year_of_to_datetime_nth:
  assumes "i < length col"
  shows "map year_of (to_datetime env col) ! i
           = (if col ! i = Null then Null
              else case parse_date env col (col ! i) of
                     None \<Rightarrow> Null
                   | Some (y, m, d) \<Rightarrow> Num y)"
  using assms by (auto simp: to_datetime_def split: cell.splits option.splits)

lemma chemical_analysis_counts:
  assumes "chemical_analysis env s = (s', Inr r)"
    and "get_col (df s) ''ChemicalName'' = Inr chem"
  shows "chem_counts r = value_counts chem"
  using assms
  by (auto simp: chemical_analysis_def Let_def split: sum.splits if_splits prod.splits)

lemma sorted_wrt_sort_desc: "sorted_wrt (\<lambda>a b. f b \<le> f a) (sort_desc f xs)"
proof -
  have "sorted (map (\<lambda>x. - int (f x)) (sort_desc f xs))"
    by (simp add: sort_desc_def)
  then show ?thesis
    by (simp add: sorted_map)
qed

lemma sort_desc_nth:
  assumes "Suc i < length (take n (sort_desc f xs))"
  shows "f (take n (sort_desc f xs) ! Suc i) \<le> f (take n (sort_desc f xs) ! i)"
proof -
  have "sorted_wrt (\<lambda>a b. f b \<le> f a) (take n (sort_desc f xs))"
    by (rule sorted_wrt_take) (rule sorted_wrt_sort_desc)
  then show ?thesis
    using assms by (simp add: sorted_wrt_iff_nth_less)
qed

lemma product_analysis_stats:
  assumes "product_analysis env s = (s', Inr r)"
  shows "\<exists>agg. company_agg (df s) = Inr agg \<and> company_stats r = sort_desc (\<lambda>(k, p, c). p) agg"
  using assms
  by (auto simp: product_analysis_def Let_def split: sum.splits if_splits prod.splits)

lemma product_analysis_console:
  assumes "product_analysis env s = (s', Inr r)"
  shows "CompanyStats (take 10 (company_stats r)) \<in> set (console s')"
  using assms
  by (auto simp: product_analysis_def Let_def save_plot_def
        split: sum.splits if_splits prod.splits option.splits)

lemma save_results_returns: "snd (save_results env s) = Inr ()"
  by (simp add: save_results_def split: prod.splits sum.splits)

lemma save_results_files:
  assumes "df s = Some f"
    and "get_col (df s) ''ChemicalName'' = Inr chem"
    and "company_agg (df s) = Inr agg"
  shows "files (fst (save_results env s))
           = files s @ takeWhile (\<lambda>(p, a). write_fails env p a = None)
               [(out_path s ''cleaned_data.csv'', CsvFrame f),
                (out_path s ''chemical_counts.csv'', CsvCounts (value_counts chem)),
                (out_path s ''company_stats.csv'', CsvCompany agg)]"
  using assms
  by (auto simp: save_results_def save_body_def to_csv_def out_path_def split: option.splits)

lemma save_results_console:
  assumes "df s = Some f"
    and "get_col (df s) ''ChemicalName'' = Inr chem"
    and "company_agg (df s) = Inr agg"
  shows "console (fst (save_results env s))
           = console s @ [Banner SaveResults,
               case List.find (\<lambda>(p, a). write_fails env p a \<noteq> None)
                 [(out_path s ''cleaned_data.csv'', CsvFrame f),
                  (out_path s ''chemical_counts.csv'', CsvCounts (value_counts chem)),
                  (out_path s ''company_stats.csv'', CsvCompany agg)] of
                 None \<Rightarrow> ResultsSaved (results_dir s)
               | Some (p, a) \<Rightarrow> SaveFailed (the (write_fails env p a))]"
  using assms
  by (auto simp: save_results_def save_body_def to_csv_def out_path_def split: option.splits)

lemma count_list_filter:
  "count_list (filter P xs) x = (if P x then count_list xs x else 0)"
  by (induction xs) auto

lemma sum_indicator_distinct:
  "distinct cs \<Longrightarrow> sum_list (map (\<lambda>c. if p = (y, c) then 1 else 0) cs)
     = (if fst p = y \<and> snd p \<in> set cs then 1 else (0::nat))"
  by (induction cs) (auto simp: prod_eq_iff)

lemma sum_count_pairs:
  "distinct cs \<Longrightarrow> sum_list (map (\<lambda>c. count_list ps (y, c)) cs)
     = length (filter (\<lambda>p. fst p = y \<and> snd p \<in> set cs) ps)"
proof (induction ps)
  case Nil
  then show ?case by simp
next
  case (Cons p ps)
  have "sum_list (map (\<lambda>c. count_list (p # ps) (y, c)) cs)
      = sum_list (map (\<lambda>c. count_list ps (y, c) + (if p = (y, c) then 1 else 0)) cs)"
    by (rule arg_cong [where f = sum_list]) (auto intro!: map_cong)
  also have "\<dots> = sum_list (map (\<lambda>c. count_list ps (y, c)) cs)
                 + sum_list (map (\<lambda>c. if p = (y, c) then 1 else 0) cs)"
    by (simp add: sum_list_addf)
  finally show ?case
    using Cons by (simp add: sum_indicator_distinct)
qed

lemma map_of_groupby_size2:
  "map_of (groupby_size2 ks1 ks2) k
     = (if k \<in> set (valid_pairs ks1 ks2) then Some (count_list (valid_pairs ks1 ks2) k) else None)"
  by (simp add: groupby_size2_def Let_def map_of_map_restrict restrict_map_def)

lemma keys_groupby_size2:
  "fst ` set (groupby_size2 ks1 ks2) = set (valid_pairs ks1 ks2)"
  by (simp add: groupby_size2_def Let_def image_image)

lemma index_unstack:
  "set (index (unstack (groupby_size2 ks1 ks2))) = fst ` set (valid_pairs ks1 ks2)"
  "distinct (index (unstack (groupby_size2 ks1 ks2)))"
  "sorted (map cell_key (index (unstack (groupby_size2 ks1 ks2))))"
proof -
  have "(\<lambda>x. fst (fst x)) ` set (groupby_size2 ks1 ks2)
          = fst ` (fst ` set (groupby_size2 ks1 ks2))"
    by (simp add: image_image)
  then show "set (index (unstack (groupby_size2 ks1 ks2))) = fst ` set (valid_pairs ks1 ks2)"
    by (simp add: unstack_def Let_def keys_groupby_size2)
qed (simp_all add: unstack_def Let_def)

lemma columns_unstack:
  "set (columns (unstack (groupby_size2 ks1 ks2))) = snd ` set (valid_pairs ks1 ks2)"
  "distinct (columns (unstack (groupby_size2 ks1 ks2)))"
  "sorted (map cell_key (columns (unstack (groupby_size2 ks1 ks2))))"
proof -
  have "(\<lambda>x. snd (fst x)) ` set (groupby_size2 ks1 ks2)
          = snd ` (fst ` set (groupby_size2 ks1 ks2))"
    by (simp add: image_image)
  then show "set (columns (unstack (groupby_size2 ks1 ks2))) = snd ` set (valid_pairs ks1 ks2)"
    by (simp add: unstack_def Let_def keys_groupby_size2)
qed (simp_all add: unstack_def Let_def)

lemma cells_unstack:
  "cells (unstack (groupby_size2 ks1 ks2))
     = map (\<lambda>y. map (\<lambda>c. map_of (groupby_size2 ks1 ks2) (y, c))
                  (columns (unstack (groupby_size2 ks1 ks2))))
         (index (unstack (groupby_size2 ks1 ks2)))"
  by (simp add: unstack_def Let_def)

lemma valid_pairs_notna:
  "(a, b) \<in> set (valid_pairs ks1 ks2) \<Longrightarrow> notna a \<and> notna b"
  by (auto simp: valid_pairs_def)

lemma count_valid_pairs:
  "notna a \<Longrightarrow> notna b \<Longrightarrow>
     count_list (valid_pairs ks1 ks2) (a, b) = count_list (zip ks1 ks2) (a, b)"
  by (simp add: valid_pairs_def count_list_filter)

lemma cell_value:
  assumes "notna y" and "notna c"
  shows "map_of (groupby_size2 ks1 ks2) (y, c)
           = (if count_list (zip ks1 ks2) (y, c) = 0 then None
              else Some (count_list (zip ks1 ks2) (y, c)))"
  using assms
  by (simp add: map_of_groupby_size2 count_valid_pairs [symmetric] count_list_0_iff)

lemma row_total:
  assumes "notna y"
  shows "sum_list (map (\<lambda>c. case map_of (groupby_size2 ks1 ks2) (y, c) of
                               None \<Rightarrow> 0
                             | Some n \<Rightarrow> n)
           (columns (unstack (groupby_size2 ks1 ks2))))
         = length (filter (\<lambda>(a, b). a = y \<and> notna b) (zip ks1 ks2))"
proof -
  let ?cols = "columns (unstack (groupby_size2 ks1 ks2))"
  let ?P = "valid_pairs ks1 ks2"
  have "(case map_of (groupby_size2 ks1 ks2) (y, c) of None \<Rightarrow> 0 | Some n \<Rightarrow> n)
          = count_list ?P (y, c)" for c
    by (simp add: map_of_groupby_size2 count_list_0_iff)
  then have "sum_list (map (\<lambda>c. case map_of (groupby_size2 ks1 ks2) (y, c) of
                               None \<Rightarrow> 0
                             | Some n \<Rightarrow> n) ?cols)
         = sum_list (map (\<lambda>c. count_list ?P (y, c)) ?cols)"
    by simp
  also have "\<dots> = length (filter (\<lambda>p. fst p = y \<and> snd p \<in> set ?cols) ?P)"
    by (rule sum_count_pairs) (rule columns_unstack(2))
  also have "filter (\<lambda>p. fst p = y \<and> snd p \<in> set ?cols) ?P = filter (\<lambda>p. fst p = y) ?P"
    by (rule filter_cong) (auto simp: columns_unstack(1))
  also have "filter (\<lambda>p. fst p = y) ?P = filter (\<lambda>(a, b). a = y \<and> notna b) (zip ks1 ks2)"
    using assms by (auto simp: valid_pairs_def intro!: filter_cong)
  finally show ?thesis .
qed

lemma sum_axis1_unstack:
  "sum_axis1 (unstack (groupby_size2 ks1 ks2))
     = map (\<lambda>y. (y, length (filter (\<lambda>(a, b). a = y \<and> notna b) (zip ks1 ks2))))
         (index (unstack (groupby_size2 ks1 ks2)))"
proof -
  let ?m = "unstack (groupby_size2 ks1 ks2)"
  have na: "notna y" if "y \<in> set (index ?m)" for y
    using that valid_pairs_notna by (auto simp: index_unstack(1))
  have "sum_axis1 ?m
      = map (\<lambda>y. (y, sum_list (map (\<lambda>c. case map_of (groupby_size2 ks1 ks2) (y, c) of
                                          None \<Rightarrow> 0
                                        | Some n \<Rightarrow> n) (columns ?m)))) (index ?m)"
    by (simp add: sum_axis1_def cells_unstack [of ks1 ks2] zip_map2 zip_same_conv_map comp_def)
  also have "\<dots> = map (\<lambda>y. (y, length (filter (\<lambda>(a, b). a = y \<and> notna b) (zip ks1 ks2))))
         (index ?m)"
    by (rule map_cong) (simp_all add: row_total [OF na])
  finally show ?thesis .
qed

lemma matrix_col_unstack:
  assumes "j < length (columns (unstack (groupby_size2 ks1 ks2)))"
  shows "matrix_col (unstack (groupby_size2 ks1 ks2))
           (columns (unstack (groupby_size2 ks1 ks2)) ! j)
         = map (\<lambda>r. r ! j) (cells (unstack (groupby_size2 ks1 ks2)))"
proof -
  let ?m = "unstack (groupby_size2 ks1 ks2)"
  have "map_of (zip (columns ?m) r) (columns ?m ! j) = Some (r ! j)"
    if "length r = length (columns ?m)" for r :: "nat option list"
    using that assms columns_unstack(2) [of ks1 ks2]
    by (simp add: map_of_zip_nth)
  then show ?thesis
    by (simp add: matrix_col_def cells_unstack [of ks1 ks2])
qed

lemma get_col_Some: "get_col (Some f) name = Inr c \<longleftrightarrow> map_of f name = Some c"
  by (simp add: get_col_def split: option.splits)

lemma chemical_analysis_absent:
  assumes "chemical_analysis env s = (s', Inr r)"
    and "df s = Some f"
    and "map_of f ''ReportYear'' = None"
  shows "chem_trends r = None"
    and "files s' = files s"
    and "console s' = console s @ [Banner ChemicalAnalysis,
           TopChemicals (take 20 (chem_counts r)),
           ChemByCategory (take 20 (chem_by_category r))]"
  using assms
  by (auto simp: chemical_analysis_def Let_def has_col_map_of in_columns_def get_col_def
        split: sum.splits if_splits prod.splits option.splits)

lemma chemical_analysis_present:
  assumes "chemical_analysis env s = (s', Inr r)"
    and "df s = Some f"
    and "map_of f ''ChemicalName'' = Some chem"
    and "map_of f ''ReportYear'' = Some year"
  shows "chem_trends r = Some (unstack (groupby_size2 year chem))"
    and "files s' = files s @ [(out_path s ''chemical_trends.png'',
           Png (LinePlot ''Top 5 Chemicals Over Time'' ''Year'' ''Number of Products''
             (map (\<lambda>c. (c, index (unstack (groupby_size2 year chem)),
                         matrix_col (unstack (groupby_size2 year chem)) c))
                (filter (\<lambda>c. c \<in> set (columns (unstack (groupby_size2 year chem))))
                   (map fst (take 5 (chem_counts r)))))))]"
    and "console s' = console s @ [Banner ChemicalAnalysis,
           TopChemicals (take 20 (chem_counts r)),
           ChemByCategory (take 20 (chem_by_category r)),
           YearTotals (sum_axis1 (unstack (groupby_size2 year chem))),
           SavedPlot ''chemical_trends.png'']"
  using assms
  by (auto simp: chemical_analysis_def Let_def has_col_map_of in_columns_def get_col_def
        save_plot_def out_path_def
        split: sum.splits if_splits prod.splits option.splits)

lemma cells_unstack_counts:
  "cells (unstack (groupby_size2 ks1 ks2))
     = map (\<lambda>y. map (\<lambda>c. if count_list (zip ks1 ks2) (y, c) = 0 then None
                            else Some (count_list (zip ks1 ks2) (y, c)))
                  (columns (unstack (groupby_size2 ks1 ks2))))
         (index (unstack (groupby_size2 ks1 ks2)))"
proof -
  let ?m = "unstack (groupby_size2 ks1 ks2)"
  have "map_of (groupby_size2 ks1 ks2) (y, c)
          = (if count_list (zip ks1 ks2) (y, c) = 0 then None
             else Some (count_list (zip ks1 ks2) (y, c)))"
    if "y \<in> set (index ?m)" and "c \<in> set (columns ?m)" for y c
  proof (rule cell_value)
    show "notna y" using that(1) valid_pairs_notna by (auto simp: index_unstack(1))
    show "notna c" using that(2) valid_pairs_notna by (auto simp: columns_unstack(1))
  qed
  then show ?thesis
    by (simp add: cells_unstack [of ks1 ks2])
qed

lemma set_valid_pairs:
  "fst ` set (valid_pairs ks1 ks2) = {y. \<exists>c. (y, c) \<in> set (zip ks1 ks2) \<and> notna y \<and> notna c}"
  "snd ` set (valid_pairs ks1 ks2) = {c. \<exists>y. (y, c) \<in> set (zip ks1 ks2) \<and> notna y \<and> notna c}"
  by (auto simp: valid_pairs_def image_iff)

lemma sorted_value_counts: "sorted_wrt (\<lambda>a b. snd b \<le> snd a) (value_counts col)"
  by (simp add: value_counts_def Let_def sorted_wrt_sort_desc)



lemma df_basic_analysis: "df (fst (basic_analysis s)) = df s"
proof -
  have "df (fold (\<lambda>col s. case map_of f col of None \<Rightarrow> s
                            | Some c \<Rightarrow> emit (UniqueCount col (nunique c)) s) cols t) = df t"
    for f :: frame and cols t
    by (induction cols arbitrary: t) (auto split: option.splits)
  then show ?thesis
    by (simp add: basic_analysis_def Let_def split: option.splits)
qed

lemma df_save_plot: "df (fst (save_plot env name p s)) = df s"
  by (simp add: save_plot_def Let_def split: option.splits)

lemma df_chemical_analysis: "df (fst (chemical_analysis env s)) = df s"
  by (auto simp: chemical_analysis_def Let_def save_plot_def
        split: sum.splits prod.splits option.splits)

lemma df_product_analysis: "df (fst (product_analysis env s)) = df s"
  by (auto simp: product_analysis_def Let_def save_plot_def
        split: sum.splits prod.splits option.splits)

lemma df_advanced_analysis: "df (fst (advanced_analysis s)) = df s"
  by (auto simp: advanced_analysis_def Let_def split: sum.splits prod.splits option.splits)

lemma mset_sort_desc: "mset (sort_desc f xs) = mset xs"
  by (simp add: sort_desc_def)

lemma chemical_analysis_col:
  assumes "chemical_analysis env s = (s', Inr r)"
  shows "\<exists>f chem. df s = Some f \<and> get_col (df s) ''ChemicalName'' = Inr chem"
  using assms
  by (auto simp: chemical_analysis_def Let_def get_col_def split: sum.splits option.splits)

lemma set_sort_desc: "set (sort_desc f xs) = set xs"
  by (simp add: sort_desc_def)

lemma distinct_map_sort_desc: "distinct (map g (sort_desc f xs)) = distinct (map g xs)"
proof -
  have "mset (map g (sort_desc f xs)) = mset (map g xs)"
    by (simp add: sort_desc_def)
  then show ?thesis
    by (rule mset_eq_imp_distinct_iff)
qed

lemma value_counts_keys:
  "distinct (map fst (value_counts col))"
  "set (map fst (value_counts col)) = {c \<in> set col. notna c}"
proof -
  show "distinct (map fst (value_counts col))"
    by (simp add: value_counts_def Let_def distinct_map_sort_desc comp_def)
  have "fst ` set (value_counts col) = set (filter notna col)"
    by (simp add: value_counts_def Let_def set_sort_desc image_image)
  then show "set (map fst (value_counts col)) = {c \<in> set col. notna c}"
    by auto
qed

lemma value_counts_rows:
  "value_counts col = map (\<lambda>c. (c, count_list col c)) (map fst (value_counts col))"
proof -
  have "row = (fst row, count_list col (fst row))" if "row \<in> set (value_counts col)" for row
  proof -
    from that obtain v where v: "v \<in> set (filter notna col)"
      and row: "row = (v, count_list (filter notna col) v)"
      by (auto simp: value_counts_def Let_def set_sort_desc)
    from v have "notna v" by simp
    then show ?thesis
      by (simp add: row count_list_filter)
  qed
  then have "map (\<lambda>row. (fst row, count_list col (fst row))) (value_counts col)
               = value_counts col"
    by (intro map_idI) simp
  then show ?thesis
    by (simp add: comp_def)
qed


section \<open>Frequency counts\<close>

text \<open>
  Claim C8. Whenever \<open>chemical_analysis\<close> completes on a loaded data set, the counts of
  the \<open>ChemicalName\<close> frequency table it computes add up to the number of records whose
  \<open>ChemicalName\<close> is not missing.
\<close>

theorem chem_counts_sum:
  assumes "chemical_analysis env s = (s', Inr r)"
    and "get_col (df s) ''ChemicalName'' = Inr chem"
  shows "sum_list (map snd (chem_counts r)) = length (filter notna chem)"
  using chemical_analysis_counts [OF assms] by (simp add: value_counts_sum)

theorem chem_counts_sum_witness:
  "snd (chemical_analysis env_ok st_small)
     = Inr \<lparr>chem_counts = [(Str ''Talc'', 2), (Str ''Mica'', 1)],
            chem_by_category = [((Str ''Hair'', Str ''Talc''), 1),
              ((Str ''Nail'', Str ''Mica''), 1), ((Str ''Nail'', Str ''Talc''), 1)],
            chem_trends = None\<rparr>
   \<and> get_col (df st_small) ''ChemicalName'' = Inr [Str ''Talc'', Null, Str ''Mica'', Str ''Talc'']
   \<and> sum_list (map snd [(Str ''Talc'', 2::nat), (Str ''Mica'', 1)])
       = length (filter notna [Str ''Talc'', Null, Str ''Mica'', Str ''Talc''])"
proof -
  have run: "snd (chemical_analysis env_ok st_small)
     = Inr \<lparr>chem_counts = [(Str ''Talc'', 2), (Str ''Mica'', 1)],
            chem_by_category = [((Str ''Hair'', Str ''Talc''), 1),
              ((Str ''Nail'', Str ''Mica''), 1), ((Str ''Nail'', Str ''Talc''), 1)],
            chem_trends = None\<rparr>"
    by code_simp
  have col: "get_col (df st_small) ''ChemicalName''
     = Inr [Str ''Talc'', Null, Str ''Mica'', Str ''Talc'']"
    by code_simp
  from run have pair: "chemical_analysis env_ok st_small
     = (fst (chemical_analysis env_ok st_small),
        Inr \<lparr>chem_counts = [(Str ''Talc'', 2), (Str ''Mica'', 1)],
            chem_by_category = [((Str ''Hair'', Str ''Talc''), 1),
              ((Str ''Nail'', Str ''Mica''), 1), ((Str ''Nail'', Str ''Talc''), 1)],
            chem_trends = None\<rparr>)"
    by (metis prod.collapse)
  from chem_counts_sum [OF pair col] run col show ?thesis by simp
qed

section \<open>Loading\<close>

text \<open>
  Claim C1. When no file exists at the data path, \<open>load_data\<close> returns False and changes
  nothing but the console, so \<open>df\<close> stays as it was (None after construction); and
  \<open>run_full_analysis\<close> then returns at once: the only step that has run is \<open>load_data\<close>,
  no file has been written, and none of \<open>basic_analysis\<close>, \<open>chemical_analysis\<close>,
  \<open>product_analysis\<close>, \<open>advanced_analysis\<close>, \<open>save_results\<close> has printed its banner.
\<close>

theorem missing_file_stops_run:
  assumes "\<not> path_exists env (abspath env (data_path s))"
  shows "load_data env s
           = (s\<lparr>console := console s @ [Banner LoadData,
                   LookingFor (abspath env (data_path s)), LoadFailed FileNotFoundError]\<rparr>,
              Inr False)
       \<and> run_full_analysis env s
           = (s\<lparr>console := console s @ [Banner LoadData,
                   LookingFor (abspath env (data_path s)), LoadFailed FileNotFoundError]\<rparr>,
              Inr ())
       \<and> df (fst (load_data env s)) = df s
       \<and> df (fst (run_full_analysis env s)) = df s
       \<and> files (fst (run_full_analysis env s)) = files s
       \<and> invoked (console (fst (run_full_analysis env s))) = invoked (console s) @ [LoadData]"
  by (simp add: load_missing [OF assms] run_full_analysis_def invoked_def)

theorem missing_file_stops_run_witness:
  "\<not> path_exists env_missing (abspath env_missing (data_path st_new))
   \<and> load_data env_missing st_new
       = (st_new\<lparr>console := [StatusDir ''/work/analysis_results'', Banner LoadData,
            LookingFor ''/work/data.csv'', LoadFailed FileNotFoundError]\<rparr>, Inr False)
   \<and> run_full_analysis env_missing st_new
       = (st_new\<lparr>console := [StatusDir ''/work/analysis_results'', Banner LoadData,
            LookingFor ''/work/data.csv'', LoadFailed FileNotFoundError]\<rparr>, Inr ())
   \<and> df (fst (run_full_analysis env_missing st_new)) = None
   \<and> files (fst (run_full_analysis env_missing st_new)) = []
   \<and> invoked (console (fst (run_full_analysis env_missing st_new))) = [LoadData]"
proof -
  have h: "\<not> path_exists env_missing (abspath env_missing (data_path st_new))"
    by (simp add: env_missing_def)
  have p: "abspath env_missing (data_path st_new) = ''/work/data.csv''"
    by (simp add: env_missing_def env_ok_def st_new_def)
  have c: "console st_new = [StatusDir ''/work/analysis_results'']"
    and d: "df st_new = None" and f: "files st_new = []"
    by (simp_all add: st_new_def)
  from missing_file_stops_run [OF h] h show ?thesis
    by (simp add: p c d f invoked_def)
qed

text \<open>
  Claim C2. When the file exists, is read and has the column \<open>InitialDateReported\<close>,
  \<open>load_data\<close> returns True and the loaded data set has a column \<open>ReportYear\<close> with
  one value per record: the year of the record's \<open>InitialDateReported\<close> when that value
  parses as a date, and the missing value when it is missing or does not parse.
\<close>

theorem report_year_of_initial_date:
  assumes "path_exists env (abspath env (data_path s))"
    and "read_csv env (abspath env (data_path s)) = Inr f"
    and "map_of f ''InitialDateReported'' = Some col"
  shows "snd (load_data env s) = Inr True
       \<and> (\<exists>f' ys. df (fst (load_data env s)) = Some f'
            \<and> map_of f' ''ReportYear'' = Some ys
            \<and> length ys = length col
            \<and> (\<forall>i<length col.
                  ys ! i = (if col ! i = Null then Null
                            else case parse_date env col (col ! i) of
                                   None \<Rightarrow> Null
                                 | Some (y, m, d) \<Rightarrow> Num y)))"
proof -
  let ?ys = "map year_of (to_datetime env col)"
  let ?f' = "set_col ''ReportYear'' ?ys (fold (coerce_date env) date_cols f)"
  have "df (fst (load_data env s)) = Some ?f'"
    by (rule load_data_success(2) [OF assms])
  moreover have "map_of ?f' ''ReportYear'' = Some ?ys"
    by (simp add: map_of_set_col)
  moreover have "length ?ys = length col"
    by (simp add: to_datetime_def)
  moreover have "\<forall>i<length col.
      ?ys ! i = (if col ! i = Null then Null
                 else case parse_date env col (col ! i) of
                        None \<Rightarrow> Null
                      | Some (y, m, d) \<Rightarrow> Num y)"
    using year_of_to_datetime_nth by blast
  ultimately show ?thesis
    using load_data_success(1) [OF assms] by blast
qed

theorem report_year_of_initial_date_witness:
  "path_exists env_ok (abspath env_ok (data_path st_new))
   \<and> read_csv env_ok (abspath env_ok (data_path st_new))
       = Inr [(''ChemicalName'', [Str ''Talc'', Str ''Mica'', Str ''Talc'']),
              (''InitialDateReported'', [Str ''06/17/2009'', Str ''unknown'', Null])]
   \<and> snd (load_data env_ok st_new) = Inr True
   \<and> df (fst (load_data env_ok st_new))
       = Some [(''ChemicalName'', [Str ''Talc'', Str ''Mica'', Str ''Talc'']),
               (''InitialDateReported'', [Dt 2009 6 17, Null, Null]),
               (''ReportYear'', [Num 2009, Null, Null])]"
proof -
  have h1: "path_exists env_ok (abspath env_ok (data_path st_new))"
    by (simp add: env_ok_def)
  have h2: "read_csv env_ok (abspath env_ok (data_path st_new))
       = Inr [(''ChemicalName'', [Str ''Talc'', Str ''Mica'', Str ''Talc'']),
              (''InitialDateReported'', [Str ''06/17/2009'', Str ''unknown'', Null])]"
    by (simp add: env_ok_def)
  have h3: "map_of [(''ChemicalName'', [Str ''Talc'', Str ''Mica'', Str ''Talc'']),
              (''InitialDateReported'', [Str ''06/17/2009'', Str ''unknown'', Null])]
              ''InitialDateReported'' = Some [Str ''06/17/2009'', Str ''unknown'', Null]"
    by simp
  have v: "df (fst (load_data env_ok st_new))
       = Some [(''ChemicalName'', [Str ''Talc'', Str ''Mica'', Str ''Talc'']),
               (''InitialDateReported'', [Dt 2009 6 17, Null, Null]),
               (''ReportYear'', [Num 2009, Null, Null])]"
    by code_simp
  from report_year_of_initial_date [OF h1 h2 h3] h1 h2 v show ?thesis
    by simp
qed

section \<open>Construction\<close>

text \<open>
  Claim C5, as the code has it. With no directory creatable, the constructor raises: the
  second \<open>os.makedirs\<close> stands in the handler of the first, outside any \<open>try\<close>.
\<close>

theorem init_raises_when_both_fail:
  "snd (init env_nodirs ''data.csv'' world0) = Inl OSError"
  by (simp add: init_def setup_directories_def makedirs_def env_nodirs_def Let_def)

text \<open>
  Claim C5, amended. The constructor returns normally exactly when the primary directory
  or else the fallback directory can be created, and otherwise raises the error of the
  fallback creation. It creates the primary directory when that succeeds and keeps it as
  \<open>results_dir\<close>; when that fails it switches \<open>results_dir\<close> to the fallback
  directory under the user's desktop and creates that instead. It leaves \<open>df\<close> unset.
\<close>

theorem init_outcome:
  "(snd (init env path w) = Inr ())
     = (makedirs_fails env (primary_dir env) = None
        \<or> makedirs_fails env (fallback_dir env) = None)
   \<and> snd (init env path w)
       = (if makedirs_fails env (primary_dir env) = None then Inr ()
          else case makedirs_fails env (fallback_dir env) of
                 None \<Rightarrow> Inr ()
               | Some e \<Rightarrow> Inl e)
   \<and> results_dir (fst (init env path w))
       = (if makedirs_fails env (primary_dir env) = None then primary_dir env
          else fallback_dir env)
   \<and> dirs (fst (init env path w))
       = (if makedirs_fails env (primary_dir env) = None
          then List.insert (primary_dir env) (dirs w)
          else if makedirs_fails env (fallback_dir env) = None
          then List.insert (fallback_dir env) (dirs w)
          else dirs w)
   \<and> df (fst (init env path w)) = None
   \<and> data_path (fst (init env path w)) = path"
  by (auto simp: init_def setup_directories_def makedirs_def Let_def primary_dir_def
        fallback_dir_def emit_def split: option.splits)

section \<open>Saving\<close>

text \<open>
  Claim C6. \<open>save_results\<close> never raises. On a loaded data set with the columns it
  reads, the three tables are written in order up to the first write that fails: the
  earlier ones stay written, the failing one and the later ones are not written, and the
  console shows the failure; with no failure it shows the results directory.
\<close>

theorem save_results_catches:
  "snd (save_results env s) = Inr ()
   \<and> (df s = Some f \<longrightarrow> get_col (df s) ''ChemicalName'' = Inr chem
        \<longrightarrow> company_agg (df s) = Inr agg
        \<longrightarrow> files (fst (save_results env s))
              = files s @ takeWhile (\<lambda>(p, a). write_fails env p a = None)
                  [(out_path s ''cleaned_data.csv'', CsvFrame f),
                   (out_path s ''chemical_counts.csv'', CsvCounts (value_counts chem)),
                   (out_path s ''company_stats.csv'', CsvCompany agg)]
          \<and> console (fst (save_results env s))
              = console s @ [Banner SaveResults,
                  case List.find (\<lambda>(p, a). write_fails env p a \<noteq> None)
                    [(out_path s ''cleaned_data.csv'', CsvFrame f),
                     (out_path s ''chemical_counts.csv'', CsvCounts (value_counts chem)),
                     (out_path s ''company_stats.csv'', CsvCompany agg)] of
                    None \<Rightarrow> ResultsSaved (results_dir s)
                  | Some (p, a) \<Rightarrow> SaveFailed (the (write_fails env p a))])"
  using save_results_returns save_results_files save_results_console by blast

theorem save_results_catches_witness:
  "df st_companies
     = Some [(''CompanyName'', [Str ''Acme'', Str ''Bolt'', Str ''Bolt'']),
             (''ProductName'', [Str ''Gloss'', Str ''Dye'', Str ''Tint'']),
             (''ChemicalName'', [Str ''Talc'', Str ''Talc'', Str ''Mica'']),
             (''PrimaryCategory'', [Str ''Lips'', Str ''Hair'', Str ''Hair'']),
             (''SubCategory'', [Str ''Gloss'', Str ''Color'', Str ''Color''])]
   \<and> get_col (df st_companies) ''ChemicalName'' = Inr [Str ''Talc'', Str ''Talc'', Str ''Mica'']
   \<and> company_agg (df st_companies) = Inr [(Str ''Acme'', 1, 1), (Str ''Bolt'', 2, 2)]
   \<and> snd (save_results env_disk_full st_companies) = Inr ()
   \<and> files (fst (save_results env_disk_full st_companies))
       = [(''out/t_cleaned_data.csv'', CsvFrame
            [(''CompanyName'', [Str ''Acme'', Str ''Bolt'', Str ''Bolt'']),
             (''ProductName'', [Str ''Gloss'', Str ''Dye'', Str ''Tint'']),
             (''ChemicalName'', [Str ''Talc'', Str ''Talc'', Str ''Mica'']),
             (''PrimaryCategory'', [Str ''Lips'', Str ''Hair'', Str ''Hair'']),
             (''SubCategory'', [Str ''Gloss'', Str ''Color'', Str ''Color''])])]
   \<and> console (fst (save_results env_disk_full st_companies))
       = [Banner SaveResults, SaveFailed OSError]"
proof -
  have h1: "df st_companies
     = Some [(''CompanyName'', [Str ''Acme'', Str ''Bolt'', Str ''Bolt'']),
             (''ProductName'', [Str ''Gloss'', Str ''Dye'', Str ''Tint'']),
             (''ChemicalName'', [Str ''Talc'', Str ''Talc'', Str ''Mica'']),
             (''PrimaryCategory'', [Str ''Lips'', Str ''Hair'', Str ''Hair'']),
             (''SubCategory'', [Str ''Gloss'', Str ''Color'', Str ''Color''])]"
    by (simp add: st_companies_def)
  have h2: "get_col (df st_companies) ''ChemicalName''
              = Inr [Str ''Talc'', Str ''Talc'', Str ''Mica'']"
    by (simp add: st_companies_def get_col_def)
  have h3: "company_agg (df st_companies) = Inr [(Str ''Acme'', 1, 1), (Str ''Bolt'', 2, 2)]"
    by code_simp
  have w: "write_fails env_disk_full = (\<lambda>p a. case a of CsvCounts t \<Rightarrow> Some OSError | _ \<Rightarrow> None)"
    by (simp add: env_disk_full_def)
  have o: "files st_companies = []" "console st_companies = []"
    "out_path st_companies ''cleaned_data.csv'' = ''out/t_cleaned_data.csv''"
    by (simp_all add: st_companies_def out_path_def path_join_def)
  from save_results_catches [of env_disk_full st_companies] h1 h2 h3 show ?thesis
    by (simp add: w o)
qed

section \<open>Company statistics\<close>

text \<open>
  Claim C9. Whenever \<open>product_analysis\<close> completes, the company statistics it prints are
  the first ten rows of its table, and down these rows the count of distinct product
  names never increases: each row's count is at most the count of the row before it.
\<close>

theorem company_stats_non_increasing:
  assumes "product_analysis env s = (s', Inr r)"
  shows "CompanyStats (take 10 (company_stats r)) \<in> set (console s')
       \<and> (\<forall>i. Suc i < length (take 10 (company_stats r))
              \<longrightarrow> fst (snd (take 10 (company_stats r) ! Suc i))
                    \<le> fst (snd (take 10 (company_stats r) ! i)))"
proof -
  obtain agg where st: "company_stats r = sort_desc (\<lambda>(k, p, c). p) agg"
    using product_analysis_stats [OF assms] by blast
  have "fst (snd (take 10 (company_stats r) ! Suc i))
          \<le> fst (snd (take 10 (company_stats r) ! i))"
    if "Suc i < length (take 10 (company_stats r))" for i
    using sort_desc_nth [of i 10 "\<lambda>(k, p, c). p" agg] that
    by (simp add: st case_prod_beta)
  then show ?thesis
    using product_analysis_console [OF assms] by blast
qed

theorem company_stats_non_increasing_witness:
  "snd (product_analysis env_ok st_companies)
     = Inr \<lparr>company_stats = [(Str ''Bolt'', 2, 2), (Str ''Acme'', 1, 1)],
            category_dist = [(Str ''Hair'', 2), (Str ''Lips'', 1)],
            subcat_dist = [((Str ''Hair'', Str ''Color''), 2), ((Str ''Lips'', Str ''Gloss''), 1)],
            discontinued = None, disc_chem = None\<rparr>
   \<and> CompanyStats [(Str ''Bolt'', 2, 2), (Str ''Acme'', 1, 1)]
       \<in> set (console (fst (product_analysis env_ok st_companies)))
   \<and> fst (snd ([(Str ''Bolt'', 2::nat, 2::nat), (Str ''Acme'', 1, 1)] ! Suc 0))
       \<le> fst (snd ([(Str ''Bolt'', 2::nat, 2::nat), (Str ''Acme'', 1, 1)] ! 0))"
proof -
  have run: "snd (product_analysis env_ok st_companies)
     = Inr \<lparr>company_stats = [(Str ''Bolt'', 2, 2), (Str ''Acme'', 1, 1)],
            category_dist = [(Str ''Hair'', 2), (Str ''Lips'', 1)],
            subcat_dist = [((Str ''Hair'', Str ''Color''), 2), ((Str ''Lips'', Str ''Gloss''), 1)],
            discontinued = None, disc_chem = None\<rparr>"
    by code_simp
  then have pair: "product_analysis env_ok st_companies
     = (fst (product_analysis env_ok st_companies),
        Inr \<lparr>company_stats = [(Str ''Bolt'', 2, 2), (Str ''Acme'', 1, 1)],
            category_dist = [(Str ''Hair'', 2), (Str ''Lips'', 1)],
            subcat_dist = [((Str ''Hair'', Str ''Color''), 2), ((Str ''Lips'', Str ''Gloss''), 1)],
            discontinued = None, disc_chem = None\<rparr>)"
    by (metis prod.collapse)
  from company_stats_non_increasing [OF pair] run show ?thesis
    by simp
qed

section \<open>Chemical trends\<close>

text \<open>
  Claim C3, as the code has it. Of three records, Talc is reported in 2009 only and Mica in
  2010 only. \<open>unstack()\<close> is called with no fill value, so the cells of the two
  combinations that do not occur hold the missing value, not zero, and the lines of the
  chart have no point there.
\<close>

theorem chemical_trends_missing_not_zero:
  "snd (chemical_analysis env_ok st_trends)
     = Inr \<lparr>chem_counts = [(Str ''Mica'', 2), (Str ''Talc'', 1)],
            chem_by_category = [((Str ''Hair'', Str ''Mica''), 1),
              ((Str ''Hair'', Str ''Talc''), 1), ((Str ''Nail'', Str ''Mica''), 1)],
            chem_trends = Some \<lparr>index = [Num 2009, Num 2010],
              columns = [Str ''Mica'', Str ''Talc''],
              cells = [[None, Some 1], [Some 2, None]]\<rparr>\<rparr>
   \<and> files (fst (chemical_analysis env_ok st_trends))
       = [(''out/t_chemical_trends.png'',
           Png (LinePlot ''Top 5 Chemicals Over Time'' ''Year'' ''Number of Products''
             [(Str ''Mica'', [Num 2009, Num 2010], [None, Some 2]),
              (Str ''Talc'', [Num 2009, Num 2010], [Some 1, None])]))]"
  by code_simp

text \<open>
  Claim C3, amended. Whenever \<open>chemical_analysis\<close> completes on a loaded data set:
  when the column \<open>ReportYear\<close> is absent, it builds no matrix, prints no totals and
  writes no file. When the column is present, it builds the matrix of counts by year and
  chemical: the rows are the years and the columns the chemical names that occur together
  in a record with neither missing, each once and in sorted order; a cell holds the number
  of records of its year and chemical, and holds the missing value (not zero) when there
  is no such record. It prints, for every year of the matrix, the number of records of
  that year with a chemical name (missing cells are skipped in the sum), and writes one
  chart, \<open>chemical_trends.png\<close> under the results directory with the run's timestamp
  before its name, with one line per chemical among the first five of the frequency count
  that is a column of the matrix, the line being that column over the years. The
  frequency count lists every chemical name of the data set once, with the number of
  records that have it, in descending order of that number, so its first five rows are
  five most frequent chemicals.
\<close>

theorem chemical_trends_matrix:
  assumes "chemical_analysis env s = (s', Inr r)"
    and "df s = Some f"
    and "map_of f ''ChemicalName'' = Some chem"
  shows "(map_of f ''ReportYear'' = None \<longrightarrow>
            chem_trends r = None \<and> files s' = files s
          \<and> console s' = console s @ [Banner ChemicalAnalysis,
                TopChemicals (take 20 (chem_counts r)),
                ChemByCategory (take 20 (chem_by_category r))])
       \<and> (\<forall>year. map_of f ''ReportYear'' = Some year \<longrightarrow>
            (\<exists>m. chem_trends r = Some m
              \<and> set (index m) = {y. \<exists>c. (y, c) \<in> set (zip year chem) \<and> notna y \<and> notna c}
              \<and> distinct (index m) \<and> sorted (map cell_key (index m))
              \<and> set (columns m) = {c. \<exists>y. (y, c) \<in> set (zip year chem) \<and> notna y \<and> notna c}
              \<and> distinct (columns m) \<and> sorted (map cell_key (columns m))
              \<and> cells m = map (\<lambda>y. map (\<lambda>c. if count_list (zip year chem) (y, c) = 0 then None
                                              else Some (count_list (zip year chem) (y, c)))
                                    (columns m)) (index m)
              \<and> (\<forall>j<length (columns m).
                    matrix_col m (columns m ! j) = map (\<lambda>row. row ! j) (cells m))
              \<and> sorted_wrt (\<lambda>a b. snd b \<le> snd a) (chem_counts r)
              \<and> console s' = console s @ [Banner ChemicalAnalysis,
                    TopChemicals (take 20 (chem_counts r)),
                    ChemByCategory (take 20 (chem_by_category r)),
                    YearTotals (map (\<lambda>y. (y, length (filter (\<lambda>(a, b). a = y \<and> notna b)
                                                        (zip year chem)))) (index m)),
                    SavedPlot ''chemical_trends.png'']
              \<and> files s' = files s @ [(out_path s ''chemical_trends.png'',
                    Png (LinePlot ''Top 5 Chemicals Over Time'' ''Year'' ''Number of Products''
                      (map (\<lambda>c. (c, index m, matrix_col m c))
                         (filter (\<lambda>c. c \<in> set (columns m))
                            (map fst (take 5 (chem_counts r)))))))]))
       \<and> distinct (map fst (chem_counts r))
       \<and> set (map fst (chem_counts r)) = {c \<in> set chem. notna c}
       \<and> chem_counts r = map (\<lambda>c. (c, count_list chem c)) (map fst (chem_counts r))
       \<and> sorted_wrt (\<lambda>a b. snd b \<le> snd a) (chem_counts r)"
proof (intro conjI impI allI)
  assume "map_of f ''ReportYear'' = None"
  note a = chemical_analysis_absent [OF assms(1,2) this]
  show "chem_trends r = None" by (rule a(1))
  show "files s' = files s" by (rule a(2))
  show "console s' = console s @ [Banner ChemicalAnalysis,
                TopChemicals (take 20 (chem_counts r)),
                ChemByCategory (take 20 (chem_by_category r))]" by (rule a(3))
next
  fix year
  assume y: "map_of f ''ReportYear'' = Some year"
  let ?m = "unstack (groupby_size2 year chem)"
  note p = chemical_analysis_present [OF assms y]
  have g: "get_col (df s) ''ChemicalName'' = Inr chem"
    using assms(2,3) by (simp add: get_col_def)
  have cc: "sorted_wrt (\<lambda>a b. snd b \<le> snd a) (chem_counts r)"
    by (simp add: chemical_analysis_counts [OF assms(1) g] sorted_value_counts)
  have "chem_trends r = Some ?m" by (rule p(1))
  moreover have "set (index ?m) = {y. \<exists>c. (y, c) \<in> set (zip year chem) \<and> notna y \<and> notna c}"
    by (simp only: index_unstack(1) set_valid_pairs(1))
  moreover have "distinct (index ?m)" "sorted (map cell_key (index ?m))"
    by (rule index_unstack)+
  moreover have "set (columns ?m) = {c. \<exists>y. (y, c) \<in> set (zip year chem) \<and> notna y \<and> notna c}"
    by (simp only: columns_unstack(1) set_valid_pairs(2))
  moreover have "distinct (columns ?m)" "sorted (map cell_key (columns ?m))"
    by (rule columns_unstack)+
  moreover have "cells ?m = map (\<lambda>y. map (\<lambda>c. if count_list (zip year chem) (y, c) = 0 then None
                                              else Some (count_list (zip year chem) (y, c)))
                                    (columns ?m)) (index ?m)"
    by (rule cells_unstack_counts)
  moreover have "\<forall>j<length (columns ?m).
      matrix_col ?m (columns ?m ! j) = map (\<lambda>row. row ! j) (cells ?m)"
    using matrix_col_unstack by blast
  moreover note cc
  moreover have "console s' = console s @ [Banner ChemicalAnalysis,
                    TopChemicals (take 20 (chem_counts r)),
                    ChemByCategory (take 20 (chem_by_category r)),
                    YearTotals (map (\<lambda>y. (y, length (filter (\<lambda>(a, b). a = y \<and> notna b)
                                                        (zip year chem)))) (index ?m)),
                    SavedPlot ''chemical_trends.png'']"
    using p(3) by (simp only: sum_axis1_unstack)
  moreover note p(2)
  ultimately show "\<exists>m. chem_trends r = Some m
              \<and> set (index m) = {y. \<exists>c. (y, c) \<in> set (zip year chem) \<and> notna y \<and> notna c}
              \<and> distinct (index m) \<and> sorted (map cell_key (index m))
              \<and> set (columns m) = {c. \<exists>y. (y, c) \<in> set (zip year chem) \<and> notna y \<and> notna c}
              \<and> distinct (columns m) \<and> sorted (map cell_key (columns m))
              \<and> cells m = map (\<lambda>y. map (\<lambda>c. if count_list (zip year chem) (y, c) = 0 then None
                                              else Some (count_list (zip year chem) (y, c)))
                                    (columns m)) (index m)
              \<and> (\<forall>j<length (columns m).
                    matrix_col m (columns m ! j) = map (\<lambda>row. row ! j) (cells m))
              \<and> sorted_wrt (\<lambda>a b. snd b \<le> snd a) (chem_counts r)
              \<and> console s' = console s @ [Banner ChemicalAnalysis,
                    TopChemicals (take 20 (chem_counts r)),
                    ChemByCategory (take 20 (chem_by_category r)),
                    YearTotals (map (\<lambda>y. (y, length (filter (\<lambda>(a, b). a = y \<and> notna b)
                                                        (zip year chem)))) (index m)),
                    SavedPlot ''chemical_trends.png'']
              \<and> files s' = files s @ [(out_path s ''chemical_trends.png'',
                    Png (LinePlot ''Top 5 Chemicals Over Time'' ''Year'' ''Number of Products''
                      (map (\<lambda>c. (c, index m, matrix_col m c))
                         (filter (\<lambda>c. c \<in> set (columns m))
                            (map fst (take 5 (chem_counts r)))))))]"
    by (intro exI [of _ ?m] conjI)
next
  have g: "get_col (df s) ''ChemicalName'' = Inr chem"
    using assms(2,3) by (simp add: get_col_def)
  have cc: "chem_counts r = value_counts chem"
    by (rule chemical_analysis_counts [OF assms(1) g])
  show "distinct (map fst (chem_counts r))"
    unfolding cc by (rule value_counts_keys(1))
  show "set (map fst (chem_counts r)) = {c \<in> set chem. notna c}"
    unfolding cc by (rule value_counts_keys(2))
  show "chem_counts r = map (\<lambda>c. (c, count_list chem c)) (map fst (chem_counts r))"
    unfolding cc by (rule value_counts_rows)
  show "sorted_wrt (\<lambda>a b. snd b \<le> snd a) (chem_counts r)"
    unfolding cc by (rule sorted_value_counts)
qed


theorem chemical_trends_matrix_witness:
  "snd (chemical_analysis env_ok st_small)
     = Inr \<lparr>chem_counts = [(Str ''Talc'', 2), (Str ''Mica'', 1)],
            chem_by_category = [((Str ''Hair'', Str ''Talc''), 1),
              ((Str ''Nail'', Str ''Mica''), 1), ((Str ''Nail'', Str ''Talc''), 1)],
            chem_trends = None\<rparr>
   \<and> files (fst (chemical_analysis env_ok st_small)) = files st_small
   \<and> snd (chemical_analysis env_ok st_trends)
     = Inr \<lparr>chem_counts = [(Str ''Mica'', 2), (Str ''Talc'', 1)],
            chem_by_category = [((Str ''Hair'', Str ''Mica''), 1),
              ((Str ''Hair'', Str ''Talc''), 1), ((Str ''Nail'', Str ''Mica''), 1)],
            chem_trends = Some \<lparr>index = [Num 2009, Num 2010],
              columns = [Str ''Mica'', Str ''Talc''],
              cells = [[None, Some 1], [Some 2, None]]\<rparr>\<rparr>
   \<and> console (fst (chemical_analysis env_ok st_trends))
       = console st_trends @ [Banner ChemicalAnalysis,
           TopChemicals [(Str ''Mica'', 2), (Str ''Talc'', 1)],
           ChemByCategory [((Str ''Hair'', Str ''Mica''), 1),
              ((Str ''Hair'', Str ''Talc''), 1), ((Str ''Nail'', Str ''Mica''), 1)],
           YearTotals
             [(Num 2009, length (filter (\<lambda>(a, b). a = Num 2009 \<and> notna b)
                 (zip [Num 2009, Num 2010, Num 2010] [Str ''Talc'', Str ''Mica'', Str ''Mica'']))),
              (Num 2010, length (filter (\<lambda>(a, b). a = Num 2010 \<and> notna b)
                 (zip [Num 2009, Num 2010, Num 2010] [Str ''Talc'', Str ''Mica'', Str ''Mica''])))],
           SavedPlot ''chemical_trends.png'']"
proof -
  let ?r1 = "\<lparr>chem_counts = [(Str ''Talc'', 2), (Str ''Mica'', 1)],
            chem_by_category = [((Str ''Hair'', Str ''Talc''), 1),
              ((Str ''Nail'', Str ''Mica''), 1), ((Str ''Nail'', Str ''Talc''), 1)],
            chem_trends = None\<rparr>"
  let ?f1 = "[(''PrimaryCategory'', [Str ''Hair'', Str ''Hair'', Str ''Nail'', Str ''Nail'']),
              (''ChemicalName'', [Str ''Talc'', Null, Str ''Mica'', Str ''Talc''])]"
  let ?r2 = "\<lparr>chem_counts = [(Str ''Mica'', 2), (Str ''Talc'', 1)],
            chem_by_category = [((Str ''Hair'', Str ''Mica''), 1),
              ((Str ''Hair'', Str ''Talc''), 1), ((Str ''Nail'', Str ''Mica''), 1)],
            chem_trends = Some \<lparr>index = [Num 2009, Num 2010],
              columns = [Str ''Mica'', Str ''Talc''],
              cells = [[None, Some 1], [Some 2, None]]\<rparr>\<rparr>"
  let ?f2 = "[(''PrimaryCategory'', [Str ''Hair'', Str ''Hair'', Str ''Nail'']),
              (''ChemicalName'', [Str ''Talc'', Str ''Mica'', Str ''Mica'']),
              (''ReportYear'', [Num 2009, Num 2010, Num 2010])]"
  have run1: "snd (chemical_analysis env_ok st_small) = Inr ?r1"
    by code_simp
  then have pair1: "chemical_analysis env_ok st_small
                      = (fst (chemical_analysis env_ok st_small), Inr ?r1)"
    by (metis prod.collapse)
  have d1: "df st_small = Some ?f1"
    by (simp add: st_small_def)
  have c1: "map_of ?f1 ''ChemicalName'' = Some [Str ''Talc'', Null, Str ''Mica'', Str ''Talc'']"
    and y1: "map_of ?f1 ''ReportYear'' = None"
    by simp_all
  have run2: "snd (chemical_analysis env_ok st_trends) = Inr ?r2"
    by code_simp
  then have pair2: "chemical_analysis env_ok st_trends
                      = (fst (chemical_analysis env_ok st_trends), Inr ?r2)"
    by (metis prod.collapse)
  have d2: "df st_trends = Some ?f2"
    by (simp add: st_trends_def)
  have c2: "map_of ?f2 ''ChemicalName'' = Some [Str ''Talc'', Str ''Mica'', Str ''Mica'']"
    and y2: "map_of ?f2 ''ReportYear'' = Some [Num 2009, Num 2010, Num 2010]"
    by simp_all
  have absent: "files (fst (chemical_analysis env_ok st_small)) = files st_small"
    using chemical_trends_matrix [OF pair1 d1 c1, THEN conjunct1] y1 by blast
  have present: "console (fst (chemical_analysis env_ok st_trends))
       = console st_trends @ [Banner ChemicalAnalysis,
           TopChemicals [(Str ''Mica'', 2), (Str ''Talc'', 1)],
           ChemByCategory [((Str ''Hair'', Str ''Mica''), 1),
              ((Str ''Hair'', Str ''Talc''), 1), ((Str ''Nail'', Str ''Mica''), 1)],
           YearTotals
             [(Num 2009, length (filter (\<lambda>(a, b). a = Num 2009 \<and> notna b)
                 (zip [Num 2009, Num 2010, Num 2010] [Str ''Talc'', Str ''Mica'', Str ''Mica'']))),
              (Num 2010, length (filter (\<lambda>(a, b). a = Num 2010 \<and> notna b)
                 (zip [Num 2009, Num 2010, Num 2010] [Str ''Talc'', Str ''Mica'', Str ''Mica''])))],
           SavedPlot ''chemical_trends.png'']"
    using chemical_trends_matrix [OF pair2 d2 c2, THEN conjunct2, THEN conjunct1] y2 by auto
  from run1 absent run2 present show ?thesis
    by (intro conjI)
qed

section \<open>Discontinued products\<close>




text \<open>
  The bar chart of an empty frequency table. When a record is discontinued and no
  discontinued record has a chemical name, the size and the empty frequency count are
  printed, drawing the bars raises, and \<open>product_analysis\<close> does not complete.
\<close>

lemma product_analysis_raises_on_empty_table:
  "product_analysis env_ok st_no_disc_chem
     = (st_no_disc_chem\<lparr>console := [Banner ProductAnalysis,
          CompanyStats [(Str ''Acme'', 1, 1), (Str ''Bolt'', 1, 0)],
          CategoryDist [(Str ''Lips'', 1), (Str ''Hair'', 1)],
          SubcatDist [((Str ''Hair'', Str ''Color''), 1), ((Str ''Lips'', Str ''Gloss''), 1)],
          DiscontinuedCount 1, DiscontinuedChems []]\<rparr>,
        Inl IndexError)"
  by code_simp

section \<open>Chemicals per product\<close>

text \<open>
  Claim C7 at a product with two records, one of them without a chemical name.
  \<open>advanced_analysis\<close> takes \<open>unique()\<close> of each group and its length, and \<open>unique()\<close>
  keeps the missing value: the product counts 2 and the printed average is 2. Counting
  the distinct values that are not missing, as the claim says and as \<open>nunique()\<close> does
  for the brands and categories of the same method, gives 1.
\<close>

theorem average_counts_missing_value:
  "snd (advanced_analysis st_missing_chem)
     = Inr \<lparr>product_chems = [(Str ''Gloss'', [Str ''Talc'', Null])],
            brand_chems = [(Str ''Shine'', 1)],
            category_diversity = [(Str ''Lips'', 1)]\<rparr>
   \<and> console (fst (advanced_analysis st_missing_chem))
       = [Banner AdvancedAnalysis, AverageChems (Some 2), BrandChems [(Str ''Shine'', 1)],
          CategoryDiversity [(Str ''Lips'', 1)]]
   \<and> spec_average_chems [Str ''Gloss'', Str ''Gloss''] [Str ''Talc'', Null] = Some 1"
  by code_simp

section \<open>Saved tables\<close>

text \<open>
  Claim C10. When \<open>basic_analysis\<close>, \<open>chemical_analysis\<close>, \<open>product_analysis\<close> and
  \<open>advanced_analysis\<close> complete one after the other, each leaves the data set as it
  found it. What \<open>save_results\<close> then writes, up to the first write that fails, is the
  data set, the frequency count that \<open>chemical_analysis\<close> computed, and a table of
  company statistics of which the table computed by \<open>product_analysis\<close> is the sorted
  rearrangement: the same rows, in another order.
\<close>

theorem saved_tables_equal_computed:
  assumes "basic_analysis s0 = (s1, Inr u)"
    and "chemical_analysis env s1 = (s2, Inr rc)"
    and "product_analysis env s2 = (s3, Inr rp)"
    and "advanced_analysis s3 = (s4, Inr ra)"
  shows "df s1 = df s0 \<and> df s2 = df s0 \<and> df s3 = df s0 \<and> df s4 = df s0
       \<and> (\<exists>f agg. df s0 = Some f
            \<and> company_stats rp = sort_desc (\<lambda>(k, p, c). p) agg
            \<and> mset agg = mset (company_stats rp)
            \<and> files (fst (save_results env s4))
                = files s4 @ takeWhile (\<lambda>(p, a). write_fails env p a = None)
                    [(out_path s4 ''cleaned_data.csv'', CsvFrame f),
                     (out_path s4 ''chemical_counts.csv'', CsvCounts (chem_counts rc)),
                     (out_path s4 ''company_stats.csv'', CsvCompany agg)])"
proof -
  have d1: "df s1 = df s0"
    using df_basic_analysis [of s0] assms(1) by simp
  have d2: "df s2 = df s0"
    using df_chemical_analysis [of env s1] assms(2) d1 by simp
  have d3: "df s3 = df s0"
    using df_product_analysis [of env s2] assms(3) d2 by simp
  have d4: "df s4 = df s0"
    using df_advanced_analysis [of s3] assms(4) d3 by simp
  obtain f chem where f: "df s1 = Some f" and chem: "get_col (df s1) ''ChemicalName'' = Inr chem"
    using chemical_analysis_col [OF assms(2)] by blast
  obtain agg where agg: "company_agg (df s2) = Inr agg"
    and st: "company_stats rp = sort_desc (\<lambda>(k, p, c). p) agg"
    using product_analysis_stats [OF assms(3)] by blast
  have cc: "chem_counts rc = value_counts chem"
    by (rule chemical_analysis_counts [OF assms(2) chem])
  have "files (fst (save_results env s4))
          = files s4 @ takeWhile (\<lambda>(p, a). write_fails env p a = None)
              [(out_path s4 ''cleaned_data.csv'', CsvFrame f),
               (out_path s4 ''chemical_counts.csv'', CsvCounts (value_counts chem)),
               (out_path s4 ''company_stats.csv'', CsvCompany agg)]"
  proof (rule save_results_files)
    show "df s4 = Some f" using f d1 d4 by simp
    show "get_col (df s4) ''ChemicalName'' = Inr chem" using chem d1 d4 by simp
    show "company_agg (df s4) = Inr agg" using agg d2 d4 by simp
  qed
  moreover have "df s0 = Some f" using f d1 by simp
  moreover have "mset agg = mset (company_stats rp)"
    by (simp add: st mset_sort_desc)
  ultimately show ?thesis
    using d1 d2 d3 d4 st cc by auto
qed


theorem saved_tables_equal_computed_witness:
  "snd (basic_analysis st_full) = Inr ()
   \<and> snd (chemical_analysis env_ok st_full1)
       = Inr \<lparr>chem_counts = [(Str ''Talc'', 2), (Str ''Mica'', 1)],
              chem_by_category = [((Str ''Hair'', Str ''Mica''), 1),
                ((Str ''Hair'', Str ''Talc''), 1), ((Str ''Lips'', Str ''Talc''), 1)],
              chem_trends = None\<rparr>
   \<and> snd (product_analysis env_ok st_full2)
       = Inr \<lparr>company_stats = [(Str ''Bolt'', 2, 2), (Str ''Acme'', 1, 1)],
              category_dist = [(Str ''Hair'', 2), (Str ''Lips'', 1)],
              subcat_dist = [((Str ''Hair'', Str ''Color''), 2),
                ((Str ''Lips'', Str ''Gloss''), 1)],
              discontinued = None, disc_chem = None\<rparr>
   \<and> snd (advanced_analysis st_full3)
       = Inr \<lparr>product_chems = [(Str ''Dye'', [Str ''Talc'']), (Str ''Gloss'', [Str ''Talc'']),
                (Str ''Tint'', [Str ''Mica''])],
              brand_chems = [(Str ''Deep'', 2), (Str ''Shine'', 1)],
              category_diversity = [(Str ''Hair'', 2), (Str ''Lips'', 1)]\<rparr>
   \<and> df st_full4 = df st_full
   \<and> files (fst (save_results env_ok st_full4))
       = [(''out/t_cleaned_data.csv'', CsvFrame
            [(''CompanyName'', [Str ''Acme'', Str ''Bolt'', Str ''Bolt'']),
             (''BrandName'', [Str ''Shine'', Str ''Deep'', Str ''Deep'']),
             (''ProductName'', [Str ''Gloss'', Str ''Dye'', Str ''Tint'']),
             (''ChemicalName'', [Str ''Talc'', Str ''Talc'', Str ''Mica'']),
             (''PrimaryCategory'', [Str ''Lips'', Str ''Hair'', Str ''Hair'']),
             (''SubCategory'', [Str ''Gloss'', Str ''Color'', Str ''Color''])]),
          (''out/t_chemical_counts.csv'', CsvCounts [(Str ''Talc'', 2), (Str ''Mica'', 1)]),
          (''out/t_company_stats.csv'', CsvCompany [(Str ''Acme'', 1, 1), (Str ''Bolt'', 2, 2)])]"
proof -
  let ?rc = "\<lparr>chem_counts = [(Str ''Talc'', 2), (Str ''Mica'', 1)],
              chem_by_category = [((Str ''Hair'', Str ''Mica''), 1),
                ((Str ''Hair'', Str ''Talc''), 1), ((Str ''Lips'', Str ''Talc''), 1)],
              chem_trends = None\<rparr>"
  let ?rp = "\<lparr>company_stats = [(Str ''Bolt'', 2, 2), (Str ''Acme'', 1, 1)],
              category_dist = [(Str ''Hair'', 2), (Str ''Lips'', 1)],
              subcat_dist = [((Str ''Hair'', Str ''Color''), 2),
                ((Str ''Lips'', Str ''Gloss''), 1)],
              discontinued = None, disc_chem = None\<rparr>"
  let ?ra = "\<lparr>product_chems = [(Str ''Dye'', [Str ''Talc'']), (Str ''Gloss'', [Str ''Talc'']),
                (Str ''Tint'', [Str ''Mica''])],
              brand_chems = [(Str ''Deep'', 2), (Str ''Shine'', 1)],
              category_diversity = [(Str ''Hair'', 2), (Str ''Lips'', 1)]\<rparr>"
  have r1: "snd (basic_analysis st_full) = Inr ()"
    by code_simp
  have r2: "snd (chemical_analysis env_ok st_full1) = Inr ?rc"
    by code_simp
  have r3: "snd (product_analysis env_ok st_full2) = Inr ?rp"
    by code_simp
  have r4: "snd (advanced_analysis st_full3) = Inr ?ra"
    by code_simp
  have p1: "basic_analysis st_full = (st_full1, Inr ())"
    using r1 by (simp add: st_full1_def prod_eq_iff)
  have p2: "chemical_analysis env_ok st_full1 = (st_full2, Inr ?rc)"
    using r2 by (simp add: st_full2_def prod_eq_iff)
  have p3: "product_analysis env_ok st_full2 = (st_full3, Inr ?rp)"
    using r3 by (simp add: st_full3_def prod_eq_iff)
  have p4: "advanced_analysis st_full3 = (st_full4, Inr ?ra)"
    using r4 by (simp add: st_full4_def prod_eq_iff)
  have same: "df st_full4 = df st_full"
    using saved_tables_equal_computed [OF p1 p2 p3 p4] by blast
  have saved: "files (fst (save_results env_ok st_full4))
       = [(''out/t_cleaned_data.csv'', CsvFrame
            [(''CompanyName'', [Str ''Acme'', Str ''Bolt'', Str ''Bolt'']),
             (''BrandName'', [Str ''Shine'', Str ''Deep'', Str ''Deep'']),
             (''ProductName'', [Str ''Gloss'', Str ''Dye'', Str ''Tint'']),
             (''ChemicalName'', [Str ''Talc'', Str ''Talc'', Str ''Mica'']),
             (''PrimaryCategory'', [Str ''Lips'', Str ''Hair'', Str ''Hair'']),
             (''SubCategory'', [Str ''Gloss'', Str ''Color'', Str ''Color''])]),
          (''out/t_chemical_counts.csv'', CsvCounts [(Str ''Talc'', 2), (Str ''Mica'', 1)]),
          (''out/t_company_stats.csv'', CsvCompany [(Str ''Acme'', 1, 1), (Str ''Bolt'', 2, 2)])]"
    by code_simp
  from r1 r2 r3 r4 same saved show ?thesis
    by (intro conjI)
qed

end
